theory Spec2Isabelle
  imports Main
begin

section \<open>The source aggregator of trendFinder (src/services/scrapeSources.ts)\<close>

text \<open>
  The module reads three environment variables once, classifies every source string as an
  X/Twitter profile or a generic page, asks the Apify actor for the tweets of a profile and
  Firecrawl for the stories of a page, and returns the concatenation of what the two
  backends gave.  The embedding below follows the TypeScript function by function.

  Strings are \<^typ>\<open>string\<close>, a \<^typ>\<open>char\<close> standing for the UTF-16 code unit of the same
  number: the strings of the embedding are the JavaScript strings whose code units are below
  256 (ASCII and Latin-1).  An optional property (\<open>id?: string\<close>) is a
  \<^typ>\<open>string option\<close>, \<open>None\<close> standing for \<open>undefined\<close> and \<open>null\<close>.
\<close>

subsection \<open>String operations of the platform used by the module\<close>

text \<open>
  The code units that \<open>trim\<close> and \<open>parseInt\<close> strip (the ECMAScript WhiteSpace and
  LineTerminator sets).  Below 256 they are TAB, LF, VT, FF, CR, SP and the no-break space
  U+00A0; the others (U+1680, U+2000 to U+200A, U+2028, U+2029, U+202F, U+205F, U+3000,
  U+FEFF) are not code units of the strings of the embedding.
\<close>

definition is_ws :: "char \<Rightarrow> bool" where
  "is_ws c =
     (c \<in> set [CHR 0x09, CHR 0x0A, CHR 0x0B, CHR 0x0C, CHR 0x0D, CHR 0x20, CHR 0xA0])"

text \<open>\<open>String.prototype.trim\<close>\<close>

definition trim :: "string \<Rightarrow> string" where
  "trim s = rev (dropWhile is_ws (rev (dropWhile is_ws s)))"

text \<open>
  The lower-case mapping of a code unit below 256: the letters A to Z and the Latin-1
  capitals U+00C0 to U+00DE (the multiplication sign U+00D7 is not a letter) move up by 32.
\<close>

definition lower_char :: "char \<Rightarrow> char" where
  "lower_char c =
     (let n = (of_char c :: nat)
      in if (65 \<le> n \<and> n \<le> 90) \<or> (192 \<le> n \<and> n \<le> 222 \<and> n \<noteq> 215)
         then char_of (n + 32) else c)"

text \<open>\<open>String.prototype.toLowerCase\<close>\<close>

definition toLowerCase :: "string \<Rightarrow> string" where
  "toLowerCase s = map lower_char s"

text \<open>\<open>s.startsWith(p)\<close> and \<open>s.endsWith(p)\<close>\<close>

definition startsWith :: "string \<Rightarrow> string \<Rightarrow> bool" where
  "startsWith s p = (take (length p) s = p)"

definition endsWith :: "string \<Rightarrow> string \<Rightarrow> bool" where
  "endsWith s p = (length p \<le> length s \<and> drop (length s - length p) s = p)"

text \<open>
  \<open>s.split(sep)\<close> for a one-character separator: the pieces between the separators, empty
  pieces included; the accumulator holds the piece being read.
\<close>

fun split_acc :: "char \<Rightarrow> string \<Rightarrow> string \<Rightarrow> string list" where
  "split_acc sep acc [] = [rev acc]"
| "split_acc sep acc (c # cs) =
     (if c = sep then rev acc # split_acc sep [] cs else split_acc sep (c # acc) cs)"

definition split :: "string \<Rightarrow> char \<Rightarrow> string list" where
  "split s sep = split_acc sep [] s"

text \<open>Truthiness of a string-valued expression: \<open>undefined\<close>, \<open>null\<close> and \<open>""\<close> are falsy.\<close>

fun truthy :: "string option \<Rightarrow> bool" where
  "truthy None = False"
| "truthy (Some s) = (s \<noteq> [])"

text \<open>The nullish coalescing operator \<open>a ?? b\<close>.\<close>

fun nullish_or :: "'a option \<Rightarrow> 'a option \<Rightarrow> 'a option" where
  "nullish_or (Some a) b = Some a"
| "nullish_or None b = b"

subsection \<open>Platform objects: \<open>URL\<close> and \<open>Date\<close>\<close>

text \<open>
  \<open>new URL(s)\<close> and \<open>new Date(s)\<close> are builtins of the runtime, and \<open>Date\<close> parsing of strings
  outside the ISO format is implementation-defined; the module only reads \<open>hostname\<close> and
  \<open>pathname\<close> of a parsed URL and the time value of a parsed date.  They are parameters of
  the embedding: \<open>parseURL s = None\<close> when \<open>new URL(s)\<close> throws, \<open>dateParse s = None\<close> when the
  time value is \<open>NaN\<close>; time values are milliseconds since the epoch.
\<close>

record url =
  hostname :: string
  pathname :: string

record platform =
  parseURL :: "string \<Rightarrow> url option"
  dateParse :: "string \<Rightarrow> int option"
  toISOString :: "int \<Rightarrow> string"

subsection \<open>Module configuration (lines 10--20 and 50--55)\<close>

record process_env =
  APIFY_API_TOKEN :: "string option"
  APIFY_TWITTER_ACTOR_ID :: "string option"
  APIFY_TWITTER_MAX_ITEMS :: "string option"

definition DEFAULT_APIFY_ACTOR_ID :: string where
  "DEFAULT_APIFY_ACTOR_ID = ''kaitoeasyapi~twitter-x-data-tweet-scraper-pay-per-result-cheapest''"

definition apifyToken :: "process_env \<Rightarrow> string" where
  "apifyToken env = (case APIFY_API_TOKEN env of None \<Rightarrow> [] | Some t \<Rightarrow> trim t)"

definition apifyActorId :: "process_env \<Rightarrow> string" where
  "apifyActorId env =
     (case APIFY_TWITTER_ACTOR_ID env of
        None \<Rightarrow> DEFAULT_APIFY_ACTOR_ID
      | Some a \<Rightarrow> if trim a \<noteq> [] then trim a else DEFAULT_APIFY_ACTOR_ID)"

text \<open>
  The value of \<open>Number.parseInt(raw, 10)\<close>.  A finite result carries the integer the digits
  denote (the module only compares it with 0 and 100, so rounding to a double is not
  modelled); a digit string at or beyond \<open>2^1024 - 2^970\<close> rounds to an infinity.
\<close>

datatype jsnumber = NaN | Finite int | PosInfinity | NegInfinity

definition is_digit :: "char \<Rightarrow> bool" where
  "is_digit c = (let n = (of_char c :: nat) in 48 \<le> n \<and> n \<le> 57)"

definition digit_value :: "char \<Rightarrow> int" where
  "digit_value c = int (of_char c :: nat) - 48"

definition digits_value :: "string \<Rightarrow> int" where
  "digits_value z = foldl (\<lambda>n c. 10 * n + digit_value c) 0 z"

definition parseInt10 :: "string \<Rightarrow> jsnumber" where
  "parseInt10 raw =
     (let s = dropWhile is_ws raw;
          neg = (case s of [] \<Rightarrow> False | c # _ \<Rightarrow> c = CHR ''-'');
          s' = (case s of [] \<Rightarrow> [] | c # cs \<Rightarrow> if c = CHR ''+'' \<or> c = CHR ''-'' then cs else s);
          z = takeWhile is_digit s'
      in if z = [] then NaN
         else if 2 ^ 1024 - 2 ^ 970 \<le> digits_value z
              then (if neg then NegInfinity else PosInfinity)
         else Finite (if neg then - digits_value z else digits_value z))"

definition apifyMaxItems :: "process_env \<Rightarrow> int" where
  "apifyMaxItems env =
     (case APIFY_TWITTER_MAX_ITEMS env of
        None \<Rightarrow> 20
      | Some raw \<Rightarrow>
          if raw = [] then 20
          else (case parseInt10 raw of
                  Finite parsed \<Rightarrow> if parsed > 0 then min parsed 100 else 20
                | _ \<Rightarrow> 20))"

definition TWEET_LOOKBACK_MS :: int where
  "TWEET_LOOKBACK_MS = 24 * 60 * 60 * 1000"

definition hasApifyCredentials :: "process_env \<Rightarrow> bool" where
  "hasApifyCredentials env = (apifyToken env \<noteq> [] \<and> apifyActorId env \<noteq> [])"

definition apifyEndpoint :: "process_env \<Rightarrow> string option" where
  "apifyEndpoint env =
     (if hasApifyCredentials env
      then Some (''https://api.apify.com/v2/acts/'' @ apifyActorId env
                 @ ''/run-sync-get-dataset-items?token='' @ apifyToken env)
      else None)"

subsection \<open>Stories and raw tweet items (lines 22--48)\<close>

record Story =
  headline :: string
  link :: string
  date_posted :: string

record ApifyTweetItem =
  item_id :: "string option"
  item_text :: "string option"
  item_full_text :: "string option"
  item_url :: "string option"
  item_twitterUrl :: "string option"
  item_createdAt :: "string option"
  item_created_at :: "string option"
  item_date :: "string option"
  item_type :: "string option"

subsection \<open>\<open>formatDateForApify\<close> (lines 57--62)\<close>

definition formatDateForApify :: "platform \<Rightarrow> int \<Rightarrow> string" where
  "formatDateForApify pf date =
     (let iso = toISOString pf date;
          parts = split iso (CHR ''T'');
          datePart = hd parts;
          timePart = (case tl parts of [] \<Rightarrow> ''00:00:00'' | timePartWithMs # _ \<Rightarrow> take 8 timePartWithMs)
      in datePart @ ''_'' @ timePart @ ''_UTC'')"

subsection \<open>\<open>extractTwitterUsername\<close> (lines 64--85)\<close>

text \<open>\<open>url.pathname.split("/").filter(Boolean)\<close>: the non-empty path segments.\<close>

definition path_segments :: "string \<Rightarrow> string list" where
  "path_segments p = filter (\<lambda>seg. seg \<noteq> []) (split p (CHR ''/''))"

text \<open>\<open>firstSegment.replace(/^@/, "")\<close>\<close>

definition strip_at :: "string \<Rightarrow> string" where
  "strip_at seg = (case seg of [] \<Rightarrow> [] | c # cs \<Rightarrow> if c = CHR ''@'' then cs else seg)"

definition reserved_segments :: "string list" where
  "reserved_segments = [''i'', ''hashtag'', ''search'']"

definition extractTwitterUsername :: "platform \<Rightarrow> string \<Rightarrow> string option" where
  "extractTwitterUsername pf source =
     (case parseURL pf (if startsWith source ''http'' then source else ''https://'' @ source) of
        None \<Rightarrow> None
      | Some u \<Rightarrow>
          (let host = toLowerCase (hostname u) in
           if \<not> endsWith host ''x.com'' \<and> \<not> endsWith host ''twitter.com'' then None
           else (case path_segments (pathname u) of
                   [] \<Rightarrow> None
                 | firstSegment # _ \<Rightarrow>
                     if toLowerCase firstSegment \<in> set reserved_segments then None
                     else Some (strip_at firstSegment))))"

subsection \<open>\<open>mapApifyItemsToStories\<close> (lines 87--132)\<close>

text \<open>
  \<open>Map.prototype.set\<close> on a \<open>Map\<close> kept as the list of its entries in insertion order: an
  existing key keeps its place and takes the new value, a new key goes to the end.
\<close>

fun map_set :: "'k \<Rightarrow> 'v \<Rightarrow> ('k \<times> 'v) list \<Rightarrow> ('k \<times> 'v) list" where
  "map_set k v [] = [(k, v)]"
| "map_set k v ((k', v') # m) = (if k' = k then (k, v) # m else (k', v') # map_set k v m)"

text \<open>
  The candidate links of an item, each trimmed, a missing one as the empty string
  (\<open>candidateLinks.map(...)\<close>), and the first non-empty one (\<open>.find(...)\<close>).
\<close>

definition candidateLinks :: "ApifyTweetItem \<Rightarrow> string list" where
  "candidateLinks item =
     map (\<lambda>v. case v of None \<Rightarrow> [] | Some s \<Rightarrow> trim s)
       [item_url item, item_twitterUrl item,
        case item_id item of
          None \<Rightarrow> None
        | Some i \<Rightarrow> if truthy (Some i) then Some (''https://x.com/i/status/'' @ i) else None]"

definition find_link :: "ApifyTweetItem \<Rightarrow> string option" where
  "find_link item = find (\<lambda>v. length v > 0) (candidateLinks item)"

text \<open>
  The date of an item: the fallback unless \<open>rawDate\<close> is truthy and parses to a time value
  other than \<open>NaN\<close>.
\<close>

definition rawDate :: "ApifyTweetItem \<Rightarrow> string option" where
  "rawDate item =
     nullish_or (item_createdAt item) (nullish_or (item_created_at item) (item_date item))"

definition parsedDateIso :: "platform \<Rightarrow> string \<Rightarrow> ApifyTweetItem \<Rightarrow> string" where
  "parsedDateIso pf fallbackDateIso item =
     (case rawDate item of
        None \<Rightarrow> fallbackDateIso
      | Some d \<Rightarrow>
          if truthy (Some d)
          then (case dateParse pf d of
                  None \<Rightarrow> fallbackDateIso
                | Some parsedDate \<Rightarrow> toISOString pf parsedDate)
          else fallbackDateIso)"

text \<open>
  One pass of the loop body on one array element (\<open>None\<close> is a \<open>null\<close> element): \<open>None\<close> when
  the body reaches a \<open>continue\<close>, the story handed to \<open>deduped.set\<close> otherwise.
\<close>

definition story_of_item :: "platform \<Rightarrow> string \<Rightarrow> ApifyTweetItem option \<Rightarrow> Story option" where
  "story_of_item pf fallbackDateIso it =
     (case it of
        None \<Rightarrow> None
      | Some item \<Rightarrow>
          if truthy (item_type item) \<and> item_type item \<noteq> Some ''tweet'' then None
          else
            (let rawHeadline =
                   (case nullish_or (item_text item) (item_full_text item) of
                      None \<Rightarrow> [] | Some h \<Rightarrow> h);
                 headline = trim rawHeadline
             in if headline = [] then None
                else (case find_link item of
                        None \<Rightarrow> None
                      | Some l \<Rightarrow>
                          Some \<lparr>headline = headline, link = l,
                                date_posted = parsedDateIso pf fallbackDateIso item\<rparr>)))"

fun map_loop ::
  "platform \<Rightarrow> string \<Rightarrow> (string \<times> Story) list \<Rightarrow> ApifyTweetItem option list \<Rightarrow>
   (string \<times> Story) list" where
  "map_loop pf fallbackDateIso deduped [] = deduped"
| "map_loop pf fallbackDateIso deduped (item # items) =
     (case story_of_item pf fallbackDateIso item of
        None \<Rightarrow> map_loop pf fallbackDateIso deduped items
      | Some story \<Rightarrow> map_loop pf fallbackDateIso (map_set (link story) story deduped) items)"

definition mapApifyItemsToStories ::
  "platform \<Rightarrow> ApifyTweetItem option list \<Rightarrow> string \<Rightarrow> Story list" where
  "mapApifyItemsToStories pf items fallbackDateIso =
     map snd (map_loop pf fallbackDateIso [] items)"

subsection \<open>The two backends, the clock and the console\<close>

text \<open>
  A value thrown inside the module.  A backend call may reject with any value
  (\<open>catch (error: any)\<close>): \<open>ThrownNullish\<close> is a rejection with \<open>null\<close> or \<open>undefined\<close>, \<open>Thrown c\<close>
  one with any other value, where \<open>c\<close> is the number its \<open>statusCode\<close> property holds, if it
  holds one.  The module itself constructs the two \<open>Error\<close>s of lines 159 and 266, and the
  runtime raises a \<open>TypeError\<close> when a property of \<open>null\<close> or \<open>undefined\<close> is read.
\<close>

datatype js_error =
    Thrown "int option"
  | ThrownNullish
  | ApifyRequestFailed int string string
  | FailedToScrape string
  | TypeError

text \<open>The expression \<open>error.statusCode\<close>: \<open>Inl\<close> when reading the property throws.\<close>

fun statusCode :: "js_error \<Rightarrow> js_error + int option" where
  "statusCode (Thrown c) = Inr c"
| "statusCode ThrownNullish = Inl TypeError"
| "statusCode (ApifyRequestFailed status statusText errorBody) = Inr None"
| "statusCode (FailedToScrape e) = Inr None"
| "statusCode TypeError = Inr None"

text \<open>
  What \<open>response.json()\<close> of the Apify call can hold, as far as the module looks at it: an
  array of items, or any other value with its \<open>items\<close> and \<open>data\<close> properties (\<open>None\<close> when
  the property is \<open>undefined\<close> or \<open>null\<close>, or the payload itself is).
\<close>

datatype items_value = NotAnArray | ItemArray "ApifyTweetItem option list"

datatype payload =
    PayloadArray "ApifyTweetItem option list"
  | PayloadOther "items_value option" "items_value option"

record http_response =
  ok :: bool
  status :: int
  statusText :: string
  text_body :: "js_error + string"
  json_body :: "js_error + payload"

record apify_request =
  from_user :: string
  maxItems :: int
  queryType :: string
  since :: string
  until :: string

datatype scrape_data = NoData | NoStoriesKey | StoriesData "Story list"

record scrape_result =
  success :: bool
  error_message :: string
  data :: scrape_data

text \<open>
  The outside world is a state \<open>'w\<close> that every backend call may change: \<open>fetch\<close> is the POST
  to the Apify endpoint, \<open>app_extract\<close> is \<open>app.extract([source], ...)\<close> (its prompt is a fixed
  text around the source and the current date), \<open>now\<close> is \<open>new Date()\<close>.  \<open>Inl\<close> is a rejected
  promise.
\<close>

record 'w backends =
  now :: "'w \<Rightarrow> int"
  fetch :: "string \<Rightarrow> apify_request \<Rightarrow> 'w \<Rightarrow> (js_error + http_response) \<times> 'w"
  app_extract :: "string \<Rightarrow> 'w \<Rightarrow> (js_error + scrape_result) \<times> 'w"

text \<open>Backend calls and console lines, in the order they happen.\<close>

datatype event =
    ApifyRequest string apify_request
  | FirecrawlExtract string
  | Warn_UnexpectedFormat
  | Log_NoTweets string
  | Log_TweetsFound string
  | Error_FetchingTweets string js_error
  | Warn_SkippingXSource string
  | Log_Found nat string
  | Error_NoStoriesKey string
  | Error_RateLimit string
  | Error_Scraping string js_error
  | Log_XSourcesSkipped
  | Log_CombinedStories "Story list"

record 'w loop_state =
  world :: 'w
  console :: "event list"
  stories :: "Story list"
  sawTwitterSource :: bool
  processedTwitterUsernames :: "string set"

definition emit :: "event \<Rightarrow> 'w loop_state \<Rightarrow> 'w loop_state" where
  "emit e st = st\<lparr>console := console st @ [e]\<rparr>"

subsection \<open>\<open>fetchTweetsFromApify\<close> (lines 134--181)\<close>

definition payload_items :: "payload \<Rightarrow> items_value" where
  "payload_items p =
     (case p of
        PayloadArray xs \<Rightarrow> ItemArray xs
      | PayloadOther its dat \<Rightarrow>
          (case nullish_or its dat of None \<Rightarrow> ItemArray [] | Some v \<Rightarrow> v))"

definition fetchTweetsFromApify ::
  "platform \<Rightarrow> process_env \<Rightarrow> 'w backends \<Rightarrow> string \<Rightarrow> 'w loop_state \<Rightarrow>
   (js_error + Story list) \<times> 'w loop_state" where
  "fetchTweetsFromApify pf env bk username st =
     (case apifyEndpoint env of
        None \<Rightarrow> (Inr [], st)
      | Some endpoint \<Rightarrow>
          (let now_ms = now bk (world st);
               lookbackStart = now_ms - TWEET_LOOKBACK_MS;
               requestPayload =
                 \<lparr>from_user = username, maxItems = apifyMaxItems env, queryType = ''Latest'',
                  since = formatDateForApify pf lookbackStart,
                  until = formatDateForApify pf now_ms\<rparr>;
               (response, w') = fetch bk endpoint requestPayload (world st);
               st' = emit (ApifyRequest endpoint requestPayload) (st\<lparr>world := w'\<rparr>)
           in case response of
                Inl e \<Rightarrow> (Inl e, st')
              | Inr r \<Rightarrow>
                  if \<not> ok r then
                    (case text_body r of
                       Inl e \<Rightarrow> (Inl e, st')
                     | Inr errorBody \<Rightarrow>
                         (Inl (ApifyRequestFailed (status r) (statusText r) errorBody), st'))
                  else
                    (case json_body r of
                       Inl e \<Rightarrow> (Inl e, st')
                     | Inr p \<Rightarrow>
                         (case payload_items p of
                            NotAnArray \<Rightarrow> (Inr [], emit Warn_UnexpectedFormat st')
                          | ItemArray items \<Rightarrow>
                              (let fallbackDateIso = toISOString pf lookbackStart;
                                   found = mapApifyItemsToStories pf items fallbackDateIso
                               in (Inr (take (nat (apifyMaxItems env)) found), st'))))))"

subsection \<open>\<open>scrapeSources\<close> (lines 187--296)\<close>

record source_obj =
  source_identifier :: string

text \<open>
  Lines 260--285.  The body of the \<open>try\<close> block of the Firecrawl call: \<open>Inl\<close> is an exception
  thrown in it (the rejected call, or the \<open>Error\<close> of line 266), next to the state reached
  when it is thrown.
\<close>

definition scrape_page_try ::
  "'w backends \<Rightarrow> 'w loop_state \<Rightarrow> string \<Rightarrow> (js_error + unit) \<times> 'w loop_state" where
  "scrape_page_try bk st source =
     (let (scrapeResult, w') = app_extract bk source (world st);
          st' = emit (FirecrawlExtract source) (st\<lparr>world := w'\<rparr>)
      in case scrapeResult of
           Inl e \<Rightarrow> (Inl e, st')
         | Inr r \<Rightarrow>
             if \<not> success r then (Inl (FailedToScrape (error_message r)), st')
             else (case data r of
                     NoData \<Rightarrow> (Inr (), emit (Error_NoStoriesKey source) st')
                   | NoStoriesKey \<Rightarrow> (Inr (), emit (Error_NoStoriesKey source) st')
                   | StoriesData todayStories \<Rightarrow>
                       (Inr (), (emit (Log_Found (length todayStories) source) st')
                                  \<lparr>stories := stories st' @ todayStories\<rparr>)))"

text \<open>
  The \<open>catch\<close> block (lines 279--285).  It reads \<open>error.statusCode\<close> first; an exception
  thrown there is thrown out of the loop body.
\<close>

definition catch_scrape_error ::
  "string \<Rightarrow> js_error \<Rightarrow> 'w loop_state \<Rightarrow> js_error + 'w loop_state" where
  "catch_scrape_error source e st =
     (case statusCode e of
        Inl thrown \<Rightarrow> Inl thrown
      | Inr c \<Rightarrow>
          if c = Some 429 then Inr (emit (Error_RateLimit source) st)
          else Inr (emit (Error_Scraping source e) st))"

definition scrape_page ::
  "'w backends \<Rightarrow> 'w loop_state \<Rightarrow> string \<Rightarrow> js_error + 'w loop_state" where
  "scrape_page bk st source =
     (case scrape_page_try bk st source of
        (Inl e, st') \<Rightarrow> catch_scrape_error source e st'
      | (Inr done, st') \<Rightarrow> Inr st')"

text \<open>
  Lines 214--226.  The \<open>try\<close> block around \<open>fetchTweetsFromApify\<close>, whose \<open>Inl\<close> results are the
  exceptions it throws, and the \<open>catch\<close> block, which only prints what it caught.
\<close>

definition scrape_tweets ::
  "platform \<Rightarrow> process_env \<Rightarrow> 'w backends \<Rightarrow> 'w loop_state \<Rightarrow> string \<Rightarrow>
   js_error + 'w loop_state" where
  "scrape_tweets pf env bk st username =
     (case fetchTweetsFromApify pf env bk username st of
        (Inl e, st') \<Rightarrow> Inr (emit (Error_FetchingTweets username e) st')
      | (Inr found, st') \<Rightarrow>
          if length found = 0 then Inr (emit (Log_NoTweets username) st')
          else Inr ((emit (Log_TweetsFound username) st')\<lparr>stories := stories st' @ found\<rparr>))"

text \<open>
  One iteration of the \<open>for\<close> loop (lines 201--285); \<open>Inl\<close> would be an exception leaving the
  loop body.  \<open>useScrape\<close> is the constant \<open>true\<close>, \<open>useTwitter\<close> is \<open>hasApifyCredentials\<close>.
\<close>

definition useScrape :: bool where
  "useScrape = True"

definition scrape_source ::
  "platform \<Rightarrow> process_env \<Rightarrow> 'w backends \<Rightarrow> 'w loop_state \<Rightarrow> string \<Rightarrow>
   js_error + 'w loop_state" where
  "scrape_source pf env bk st source =
     (let useTwitter = hasApifyCredentials env;
          username = extractTwitterUsername pf source;
          st1 = (if truthy username then st\<lparr>sawTwitterSource := True\<rparr> else st)
      in case username of
           Some u \<Rightarrow>
             if useTwitter \<and> truthy username then
               (let normalizedUsername = toLowerCase u in
                if normalizedUsername \<in> processedTwitterUsernames st1 then Inr st1
                else scrape_tweets pf env bk
                       (st1\<lparr>processedTwitterUsernames :=
                              insert normalizedUsername (processedTwitterUsernames st1)\<rparr>) u)
             else if truthy username \<and> \<not> useTwitter then
               Inr (emit (Warn_SkippingXSource source) st1)
             else if \<not> useScrape then Inr st1
             else scrape_page bk st1 source
         | None \<Rightarrow>
             if \<not> useScrape then Inr st1 else scrape_page bk st1 source)"

fun scrape_loop ::
  "platform \<Rightarrow> process_env \<Rightarrow> 'w backends \<Rightarrow> 'w loop_state \<Rightarrow> source_obj list \<Rightarrow>
   js_error + 'w loop_state" where
  "scrape_loop pf env bk st [] = Inr st"
| "scrape_loop pf env bk st (sourceObj # sources) =
     (case scrape_source pf env bk st (source_identifier sourceObj) of
        Inl e \<Rightarrow> Inl e
      | Inr st' \<Rightarrow> scrape_loop pf env bk st' sources)"

definition initial_state :: "'w \<Rightarrow> 'w loop_state" where
  "initial_state w =
     \<lparr>world = w, console = [], stories = [], sawTwitterSource = False,
      processedTwitterUsernames = {}\<rparr>"

text \<open>
  The whole call: the returned array together with the final state (the console and the
  world after the run), or \<open>Inl\<close> for a rejected promise.
\<close>

definition scrapeSources ::
  "platform \<Rightarrow> process_env \<Rightarrow> 'w backends \<Rightarrow> 'w \<Rightarrow> source_obj list \<Rightarrow>
   js_error + (Story list \<times> 'w loop_state)" where
  "scrapeSources pf env bk w sources =
     (case scrape_loop pf env bk (initial_state w) sources of
        Inl e \<Rightarrow> Inl e
      | Inr st \<Rightarrow>
          (let st1 = (if \<not> hasApifyCredentials env \<and> sawTwitterSource st
                      then emit Log_XSourcesSkipped st else st);
               st2 = emit (Log_CombinedStories (stories st1)) st1
           in Inr (stories st2, st2)))"

subsection \<open>The dispatch of the variant in src/unnamed/part_000 (lines 45--58 and 127--129)\<close>






subsection \<open>Notions used to state the properties\<close>

text \<open>A source is classified social when the loop's test \<open>if (username)\<close> succeeds.\<close>

definition is_social :: "platform \<Rightarrow> string \<Rightarrow> bool" where
  "is_social pf source = truthy (extractTwitterUsername pf source)"

text \<open>The key under which the loop records a social source: its username in lower case.\<close>

definition normalized_username :: "platform \<Rightarrow> string \<Rightarrow> string option" where
  "normalized_username pf source =
     (case extractTwitterUsername pf source of
        None \<Rightarrow> None
      | Some u \<Rightarrow> if u = [] then None else Some (toLowerCase u))"

text \<open>
  The loop state with which the \<open>try\<close> block of a social source is entered (after lines
  205 and 212).
\<close>

definition marked :: "string \<Rightarrow> 'w loop_state \<Rightarrow> 'w loop_state" where
  "marked n st =
     st\<lparr>sawTwitterSource := True,
        processedTwitterUsernames := insert n (processedTwitterUsernames st)\<rparr>"

text \<open>No Firecrawl call of the backends rejects with \<open>null\<close> or \<open>undefined\<close>.\<close>

definition extract_rejects_objects :: "'w backends \<Rightarrow> bool" where
  "extract_rejects_objects bk = (\<forall>source w. fst (app_extract bk source w) \<noteq> Inl ThrownNullish)"

text \<open>The Apify requests for a username, compared after lowercasing.\<close>

fun apify_call_for :: "string \<Rightarrow> event \<Rightarrow> bool" where
  "apify_call_for n (ApifyRequest endpoint req) = (toLowerCase (from_user req) = n)"
| "apify_call_for n e = False"

fun is_apify_call :: "event \<Rightarrow> bool" where
  "is_apify_call (ApifyRequest endpoint req) = True"
| "is_apify_call e = False"

text \<open>
  The invariant of the loop about Apify requests: at most one for a recorded username, none
  for any other.
\<close>

definition called_once :: "'w loop_state \<Rightarrow> bool" where
  "called_once st =
     (\<forall>n. length (filter (apify_call_for n) (console st))
            \<le> (if n \<in> processedTwitterUsernames st then 1 else 0))"

text \<open>Console lines of the loop body: neither an Apify request nor the closing notice.\<close>

definition plain_line :: "event \<Rightarrow> bool" where
  "plain_line e = (\<not> is_apify_call e \<and> e \<noteq> Log_XSourcesSkipped)"

text \<open>Every entry of the \<open>deduped\<close> map is stored under the link of its story.\<close>

definition keyed_by_link :: "(string \<times> Story) list \<Rightarrow> bool" where
  "keyed_by_link m = (\<forall>(k, s) \<in> set m. link s = k)"

text \<open>The array a call returns, without the final state.\<close>

definition returned :: "js_error + (Story list \<times> 'w loop_state) \<Rightarrow> js_error + Story list" where
  "returned r = map_sum id fst r"

text \<open>The console after a call.\<close>

definition final_console :: "js_error + (Story list \<times> 'w loop_state) \<Rightarrow> event list" where
  "final_console r = (case r of Inl e \<Rightarrow> [] | Inr (out, st) \<Rightarrow> console st)"

text \<open>A string is blank when trimming leaves nothing.\<close>

fun blank :: "string option \<Rightarrow> bool" where
  "blank None = True"
| "blank (Some s) = (trim s = [])"

subsection \<open>A platform and backends to run the module on concrete inputs\<close>

text \<open>
  The URL parser of plain \<open>scheme://host/path\<close> strings, and \<open>Date\<close> on the UTC form
  \<open>YYYY-MM-DDTHH:mm:ss[.sss]Z\<close> of the ECMAScript date-time format with the proleptic
  Gregorian calendar; they agree with the runtime on the inputs of the examples below.
\<close>

definition simple_parseURL :: "string \<Rightarrow> url option" where
  "simple_parseURL s =
     (let rest = (if startsWith s ''https://'' then Some (drop 8 s)
                  else if startsWith s ''http://'' then Some (drop 7 s) else None)
      in case rest of
           None \<Rightarrow> None
         | Some r \<Rightarrow>
             (let host = takeWhile (\<lambda>c. c \<noteq> CHR ''/'') r;
                  path = dropWhile (\<lambda>c. c \<noteq> CHR ''/'') r
              in if host = [] then None
                 else Some \<lparr>hostname = toLowerCase host,
                            pathname = (if path = [] then ''/'' else path)\<rparr>))"

definition days_from_civil :: "int \<Rightarrow> int \<Rightarrow> int \<Rightarrow> int" where
  "days_from_civil y m d =
     (let y' = (if m \<le> 2 then y - 1 else y);
          era = y' div 400;
          yoe = y' - era * 400;
          doy = (153 * (if m > 2 then m - 3 else m + 9) + 2) div 5 + d - 1;
          doe = yoe * 365 + yoe div 4 - yoe div 100 + doy
      in era * 146097 + doe - 719468)"

definition civil_from_days :: "int \<Rightarrow> int \<times> int \<times> int" where
  "civil_from_days z0 =
     (let z = z0 + 719468;
          era = z div 146097;
          doe = z - era * 146097;
          yoe = (doe - doe div 1460 + doe div 36524 - doe div 146096) div 365;
          doy = doe - (365 * yoe + yoe div 4 - yoe div 100);
          mp = (5 * doy + 2) div 153;
          d = doy - (153 * mp + 2) div 5 + 1;
          m = (if mp < 10 then mp + 3 else mp - 9)
      in (if m \<le> 2 then yoe + era * 400 + 1 else yoe + era * 400, m, d))"

definition digit_char :: "int \<Rightarrow> char" where
  "digit_char n = char_of (48 + nat (n mod 10))"

definition pad2 :: "int \<Rightarrow> string" where
  "pad2 n = [digit_char (n div 10), digit_char n]"

definition pad3 :: "int \<Rightarrow> string" where
  "pad3 n = [digit_char (n div 100), digit_char (n div 10), digit_char n]"

definition pad4 :: "int \<Rightarrow> string" where
  "pad4 n = [digit_char (n div 1000), digit_char (n div 100), digit_char (n div 10), digit_char n]"

definition iso_toISOString :: "int \<Rightarrow> string" where
  "iso_toISOString t =
     (let (y, m, d) = civil_from_days (t div 86400000);
          ms = t mod 86400000
      in pad4 y @ ''-'' @ pad2 m @ ''-'' @ pad2 d @ ''T'' @ pad2 (ms div 3600000) @ '':''
         @ pad2 (ms div 60000 mod 60) @ '':'' @ pad2 (ms div 1000 mod 60) @ ''.''
         @ pad3 (ms mod 1000) @ ''Z'')"

definition digits_of :: "string \<Rightarrow> int option" where
  "digits_of z = (if z \<noteq> [] \<and> list_all is_digit z then Some (digits_value z) else None)"

definition days_in_month :: "int \<Rightarrow> int \<Rightarrow> int" where
  "days_in_month y m =
     (if m = 2 then (if y mod 4 = 0 \<and> (y mod 100 \<noteq> 0 \<or> y mod 400 = 0) then 29 else 28)
      else if m \<in> {4, 6, 9, 11} then 30 else 31)"

definition iso_dateParse :: "string \<Rightarrow> int option" where
  "iso_dateParse s =
     (let n = length s;
          frac = (if n = 24 then (if s ! 19 = CHR ''.'' then digits_of (take 3 (drop 20 s)) else None)
                  else if n = 20 then Some 0 else None)
      in case (digits_of (take 4 s), digits_of (take 2 (drop 5 s)), digits_of (take 2 (drop 8 s)),
               digits_of (take 2 (drop 11 s)), digits_of (take 2 (drop 14 s)),
               digits_of (take 2 (drop 17 s)), frac) of
           (Some y, Some m, Some d, Some hh, Some mi, Some ss, Some ms) \<Rightarrow>
             if s ! 4 = CHR ''-'' \<and> s ! 7 = CHR ''-'' \<and> s ! 10 = CHR ''T'' \<and> s ! 13 = CHR '':''
                \<and> s ! 16 = CHR '':'' \<and> last s = CHR ''Z''
                \<and> 1 \<le> m \<and> m \<le> 12 \<and> 1 \<le> d \<and> d \<le> days_in_month y m
                \<and> hh \<le> 23 \<and> mi \<le> 59 \<and> ss \<le> 59
             then Some (days_from_civil y m d * 86400000 + hh * 3600000 + mi * 60000
                        + ss * 1000 + ms)
             else None
         | _ \<Rightarrow> None)"

definition sample_platform :: platform where
  "sample_platform =
     \<lparr>parseURL = simple_parseURL, dateParse = iso_dateParse, toISOString = iso_toISOString\<rparr>"

definition env_configured :: process_env where
  "env_configured =
     \<lparr>APIFY_API_TOKEN = Some ''secret'', APIFY_TWITTER_ACTOR_ID = None,
      APIFY_TWITTER_MAX_ITEMS = None\<rparr>"

definition env_unconfigured :: process_env where
  "env_unconfigured =
     \<lparr>APIFY_API_TOKEN = None, APIFY_TWITTER_ACTOR_ID = None, APIFY_TWITTER_MAX_ITEMS = None\<rparr>"

definition no_item :: ApifyTweetItem where
  "no_item =
     \<lparr>item_id = None, item_text = None, item_full_text = None, item_url = None,
      item_twitterUrl = None, item_createdAt = None, item_created_at = None, item_date = None,
      item_type = None\<rparr>"

text \<open>
  The post of the first scenario of the specification, a second item with the same URL, and
  a post that has no URL field.
\<close>

definition tweet_hi :: ApifyTweetItem where
  "tweet_hi =
     no_item\<lparr>item_id := Some ''1'', item_text := Some ''hi'',
             item_url := Some ''https://x.com/openai/status/1'',
             item_createdAt := Some ''2024-01-01T00:00:00Z''\<rparr>"

definition tweet_hi_again :: ApifyTweetItem where
  "tweet_hi_again = tweet_hi\<lparr>item_text := Some ''hi again''\<rparr>"

definition tweet_other :: ApifyTweetItem where
  "tweet_other =
     no_item\<lparr>item_id := Some ''2'', item_full_text := Some '' second post '',
             item_date := Some ''2024-01-01T12:00:00.000Z''\<rparr>"

definition sample_items :: "ApifyTweetItem option list" where
  "sample_items = [Some tweet_hi, None, Some tweet_hi_again, Some tweet_other]"

definition story_a :: Story where
  "story_a =
     \<lparr>headline = ''A new model'', link = ''https://example.com/a'', date_posted = ''2024-01-02''\<rparr>"

text \<open>
  A world that counts the backend calls.  \<open>answering\<close>: every Apify call answers 200 with the
  items above and every Firecrawl call succeeds with one and the same story;
  \<open>failing\<close>: every Apify call rejects and every Firecrawl call rejects with status 429.
\<close>

definition answering :: "nat backends" where
  "answering =
     \<lparr>now = (\<lambda>w. 1704153600000),
      fetch = (\<lambda>endpoint req w.
        (Inr \<lparr>ok = True, status = 200, statusText = ''OK'', text_body = Inr [],
              json_body = Inr (PayloadArray sample_items)\<rparr>, Suc w)),
      app_extract = (\<lambda>source w.
        (Inr \<lparr>success = True, error_message = [], data = StoriesData [story_a]\<rparr>, Suc w))\<rparr>"

definition failing :: "nat backends" where
  "failing =
     \<lparr>now = (\<lambda>w. 1704153600000),
      fetch = (\<lambda>endpoint req w. (Inl (Thrown None), Suc w)),
      app_extract = (\<lambda>source w. (Inl (Thrown (Some 429)), Suc w))\<rparr>"

text \<open>
  \<open>silent\<close>: every Apify call answers 200 with an object that has neither \<open>items\<close> nor
  \<open>data\<close>, every Firecrawl call succeeds with data that has no \<open>stories\<close>.
\<close>

definition silent :: "nat backends" where
  "silent =
     \<lparr>now = (\<lambda>w. 1704153600000),
      fetch = (\<lambda>endpoint req w.
        (Inr \<lparr>ok = True, status = 200, statusText = ''OK'', text_body = Inr [],
              json_body = Inr (PayloadOther None None)\<rparr>, Suc w)),
      app_extract = (\<lambda>source w.
        (Inr \<lparr>success = True, error_message = [], data = NoStoriesKey\<rparr>, Suc w))\<rparr>"

text \<open>
  The backends of the first two scenarios of the specification: the Apify call answers with
  the one post, the Firecrawl call with \<open>{success: false, error: "timeout"}\<close>.
\<close>

definition scenario :: "nat backends" where
  "scenario =
     \<lparr>now = (\<lambda>w. 1704153600000),
      fetch = (\<lambda>endpoint req w.
        (Inr \<lparr>ok = True, status = 200, statusText = ''OK'', text_body = Inr [],
              json_body = Inr (PayloadArray [Some tweet_hi])\<rparr>, Suc w)),
      app_extract = (\<lambda>source w.
        (Inr \<lparr>success = False, error_message = ''timeout'', data = NoData\<rparr>, Suc w))\<rparr>"

text \<open>\<open>rejecting_undefined\<close>: every call of either backend rejects with \<open>undefined\<close>.\<close>

definition rejecting_undefined :: "nat backends" where
  "rejecting_undefined =
     \<lparr>now = (\<lambda>w. 1704153600000),
      fetch = (\<lambda>endpoint req w. (Inl ThrownNullish, Suc w)),
      app_extract = (\<lambda>source w. (Inl ThrownNullish, Suc w))\<rparr>"

text \<open>The request that the sample environment and clock send for the username \<open>openai\<close>.\<close>

definition openai_request :: event where
  "openai_request =
     ApifyRequest
       (''https://api.apify.com/v2/acts/'' @ DEFAULT_APIFY_ACTOR_ID
        @ ''/run-sync-get-dataset-items?token=secret'')
       \<lparr>from_user = ''openai'', maxItems = 20, queryType = ''Latest'',
        since = ''2024-01-01_00:00:00_UTC'', until = ''2024-01-02_00:00:00_UTC''\<rparr>"

text \<open>The loop state right after that request, sent as the first call of a run.\<close>

definition after_request :: "nat loop_state" where
  "after_request =
     \<lparr>world = 1, console = [openai_request], stories = [], sawTwitterSource = True,
      processedTwitterUsernames = {''openai''}\<rparr>"

definition src :: "string \<Rightarrow> source_obj" where
  "src s = \<lparr>source_identifier = s\<rparr>"

section \<open>The normalizer\<close>

subsection \<open>The \<open>deduped\<close> map\<close>

lemma map_set_keys:
  "map fst (map_set k v m) = (if k \<in> fst ` set m then map fst m else map fst m @ [k])"
  by (induction m) (force split: if_splits)+

lemma distinct_map_set: "distinct (map fst m) \<Longrightarrow> distinct (map fst (map_set k v m))"
  by (simp add: map_set_keys)

lemma map_of_map_set: "map_of (map_set k v m) = (map_of m)(k \<mapsto> v)"
  by (induction m) (auto simp: fun_eq_iff)

lemma keyed_map_set: "keyed_by_link m \<Longrightarrow> link s = k \<Longrightarrow> keyed_by_link (map_set k s m)"
  by (induction m) (auto simp: keyed_by_link_def split: if_splits)

lemma keyed_links: "keyed_by_link m \<Longrightarrow> map (link \<circ> snd) m = map fst m"
  by (induction m) (auto simp: keyed_by_link_def)

text \<open>In a map with distinct keys, keyed by link, a link selects the one story stored under it.\<close>

lemma single_entry:
  "distinct (map fst m) \<Longrightarrow> keyed_by_link m \<Longrightarrow> map_of m l = Some s \<Longrightarrow>
   filter (\<lambda>s. link s = l) (map snd m) = [s]"
proof (induction m)
  case Nil
  then show ?case by simp
next
  case (Cons p m)
  obtain k v where p: "p = (k, v)" by (cases p)
  from Cons.prems p have kv: "link v = k" and km: "keyed_by_link m" and dm: "distinct (map fst m)"
    and knot: "k \<notin> fst ` set m"
    by (auto simp: keyed_by_link_def)
  show ?case
  proof (cases "k = l")
    case True
    with Cons.prems p have "v = s" by simp
    moreover have "filter (\<lambda>s. link s = l) (map snd m) = []"
      using knot km True by (auto simp: filter_empty_conv keyed_by_link_def intro: rev_image_eqI)
    ultimately show ?thesis using p kv True by simp
  next
    case False
    with Cons.prems p have "map_of m l = Some s" by simp
    with Cons.IH dm km have "filter (\<lambda>s. link s = l) (map snd m) = [s]" by simp
    with False p kv show ?thesis by simp
  qed
qed

subsection \<open>The loop over the items\<close>

lemma map_loop_append:
  "map_loop pf fb d (xs @ ys) = map_loop pf fb (map_loop pf fb d xs) ys"
  by (induction xs arbitrary: d) (auto split: option.splits)

lemma map_loop_distinct:
  "distinct (map fst d) \<Longrightarrow> distinct (map fst (map_loop pf fb d items))"
  by (induction items arbitrary: d) (auto split: option.splits simp: distinct_map_set)

lemma map_loop_keyed:
  "keyed_by_link d \<Longrightarrow> keyed_by_link (map_loop pf fb d items)"
  by (induction items arbitrary: d) (auto split: option.splits simp: keyed_map_set)

lemma map_loop_untouched:
  "\<forall>it \<in> set items. \<forall>s. story_of_item pf fb it = Some s \<longrightarrow> link s \<noteq> l \<Longrightarrow>
   map_of (map_loop pf fb d items) l = map_of d l"
  by (induction items arbitrary: d) (auto split: option.splits simp: map_of_map_set)

lemma map_loop_skip:
  "story_of_item pf fb it = None \<Longrightarrow>
   map_loop pf fb d (xs @ it # ys) = map_loop pf fb d (xs @ ys)"
  by (simp add: map_loop_append)

lemma mapApify_distinct: "distinct (map link (mapApifyItemsToStories pf items fb))"
proof -
  have "keyed_by_link (map_loop pf fb [] items)"
    by (rule map_loop_keyed) (simp add: keyed_by_link_def)
  moreover have "distinct (map fst (map_loop pf fb [] items))"
    by (rule map_loop_distinct) simp
  ultimately show ?thesis
    by (simp add: mapApifyItemsToStories_def keyed_links)
qed

text \<open>
  C3.  When two items of the list handed to \<open>mapApifyItemsToStories\<close> yield the same link, the
  output holds exactly one story with that link, and it is the story (headline, date) of the
  later item: of the last item that yields the link, when more than two do.
\<close>

theorem later_item_wins:
  assumes "i < j" and "j < length items"
    and "story_of_item pf fb (items ! i) = Some si"
    and "story_of_item pf fb (items ! j) = Some sj"
    and "link si = link sj"
    and "\<forall>k. j < k \<and> k < length items \<longrightarrow>
           (\<forall>s. story_of_item pf fb (items ! k) = Some s \<longrightarrow> link s \<noteq> link sj)"
  shows "filter (\<lambda>s. link s = link sj) (mapApifyItemsToStories pf items fb) = [sj]"
proof -
  let ?pre = "take j items" and ?post = "drop (Suc j) items"
  have parts: "items = ?pre @ items ! j # ?post"
    using assms(2) by (simp add: id_take_nth_drop)
  let ?d = "map_loop pf fb [] ?pre"
  let ?d' = "map_set (link sj) sj ?d"
  have run: "map_loop pf fb [] items = map_loop pf fb ?d' ?post"
    by (subst parts, simp only: map_loop_append) (simp add: assms(4))
  have post: "\<forall>it \<in> set ?post. \<forall>s. story_of_item pf fb it = Some s \<longrightarrow> link s \<noteq> link sj"
  proof
    fix it assume "it \<in> set ?post"
    then obtain n where n: "n < length ?post" "it = ?post ! n"
      by (auto simp: in_set_conv_nth)
    then have a: "it = items ! (Suc j + n)" and b: "j < Suc j + n \<and> Suc j + n < length items"
      by auto
    show "\<forall>s. story_of_item pf fb it = Some s \<longrightarrow> link s \<noteq> link sj"
      using spec [OF assms(6), of "Suc j + n"] b unfolding a by blast
  qed
  have "map_of (map_loop pf fb ?d' ?post) (link sj) = map_of ?d' (link sj)"
    using post by (rule map_loop_untouched)
  then have look: "map_of (map_loop pf fb [] items) (link sj) = Some sj"
    by (simp add: run map_of_map_set)
  have "keyed_by_link (map_loop pf fb [] items)"
    by (rule map_loop_keyed) (simp add: keyed_by_link_def)
  moreover have "distinct (map fst (map_loop pf fb [] items))"
    by (rule map_loop_distinct) simp
  ultimately show ?thesis
    using look by (simp add: mapApifyItemsToStories_def single_entry)
qed

text \<open>
  The sample items: the first and the third share their URL, the fourth has another link;
  the one story kept for the URL has the headline of the third.
\<close>

theorem later_item_wins_witness:
  "(0::nat) < 2 \<and> 2 < length sample_items
   \<and> story_of_item sample_platform ''fb'' (sample_items ! 0)
       = Some \<lparr>headline = ''hi'', link = ''https://x.com/openai/status/1'',
               date_posted = ''2024-01-01T00:00:00.000Z''\<rparr>
   \<and> story_of_item sample_platform ''fb'' (sample_items ! 2)
       = Some \<lparr>headline = ''hi again'', link = ''https://x.com/openai/status/1'',
               date_posted = ''2024-01-01T00:00:00.000Z''\<rparr>
   \<and> filter (\<lambda>s. link s = ''https://x.com/openai/status/1'')
         (mapApifyItemsToStories sample_platform sample_items ''fb'')
       = [\<lparr>headline = ''hi again'', link = ''https://x.com/openai/status/1'',
           date_posted = ''2024-01-01T00:00:00.000Z''\<rparr>]"
proof -
  let ?si = "\<lparr>headline = ''hi'', link = ''https://x.com/openai/status/1'',
               date_posted = ''2024-01-01T00:00:00.000Z''\<rparr>"
  let ?sj = "\<lparr>headline = ''hi again'', link = ''https://x.com/openai/status/1'',
               date_posted = ''2024-01-01T00:00:00.000Z''\<rparr>"
  have len: "length sample_items = 4" by (simp add: sample_items_def)
  have i: "story_of_item sample_platform ''fb'' (sample_items ! 0) = Some ?si"
    by code_simp
  have j: "story_of_item sample_platform ''fb'' (sample_items ! 2) = Some ?sj"
    by code_simp
  have k3: "story_of_item sample_platform ''fb'' (sample_items ! 3)
              = Some \<lparr>headline = ''second post'', link = ''https://x.com/i/status/2'',
                      date_posted = ''2024-01-01T12:00:00.000Z''\<rparr>"
    by code_simp
  have later: "\<forall>k. 2 < k \<and> k < length sample_items \<longrightarrow>
           (\<forall>s. story_of_item sample_platform ''fb'' (sample_items ! k) = Some s
                \<longrightarrow> link s \<noteq> link ?sj)"
  proof (intro allI impI)
    fix k s
    assume "2 < k \<and> k < length sample_items"
      and s: "story_of_item sample_platform ''fb'' (sample_items ! k) = Some s"
    then have "k = 3" using len by arith
    with s k3 show "link s \<noteq> link ?sj" by auto
  qed
  have "filter (\<lambda>s. link s = link ?sj) (mapApifyItemsToStories sample_platform sample_items ''fb'')
          = [?sj]"
    using later_item_wins [of 0 2 sample_items sample_platform "''fb''" ?si ?sj] i j later len
    by simp
  with i j len show ?thesis by simp
qed


subsection \<open>What one Apify call returns\<close>

lemma fetchTweets_cases:
  assumes "fetchTweetsFromApify pf env bk username st = (Inr found, st')"
  shows "found = [] \<or>
         (\<exists>items fb. found = take (nat (apifyMaxItems env)) (mapApifyItemsToStories pf items fb))"
  using assms
  by (auto simp: fetchTweetsFromApify_def Let_def
           split: option.splits prod.splits sum.splits if_splits items_value.splits)

text \<open>
  C2 (as stated).  Two generic-page sources whose pages carry the same story: the returned
  list holds the story twice, so two of its records share a link.
\<close>

theorem unique_links_counterexample:
  "returned (scrapeSources sample_platform env_unconfigured answering 0
              [src ''https://a.example'', src ''https://b.example''])
     = Inr [story_a, story_a]
   \<and> \<not> distinct (map link [story_a, story_a])"
  by code_simp

text \<open>
  C2 (amended).  The stories that one call of the social backend (\<open>fetchTweetsFromApify\<close>)
  returns have pairwise different links.  The aggregator appends what every call returns
  and removes nothing, so the links of the combined list need not be different.
\<close>

theorem unique_links_per_call:
  "fetchTweetsFromApify pf env bk username st = (Inr found, st') \<Longrightarrow> distinct (map link found)"
proof -
  assume "fetchTweetsFromApify pf env bk username st = (Inr found, st')"
  from fetchTweets_cases [OF this] show "distinct (map link found)"
  proof
    assume "found = []"
    then show ?thesis by simp
  next
    assume "\<exists>items fb. found = take (nat (apifyMaxItems env)) (mapApifyItemsToStories pf items fb)"
    then obtain items fb
      where "found = take (nat (apifyMaxItems env)) (mapApifyItemsToStories pf items fb)"
      by blast
    then have "map link found = take (nat (apifyMaxItems env))
                 (map link (mapApifyItemsToStories pf items fb))"
      by (simp add: take_map)
    then show ?thesis
      using mapApify_distinct [of pf items fb] by (simp add: distinct_take)
  qed
qed

theorem unique_links_per_call_witness:
  "fst (fetchTweetsFromApify sample_platform env_configured answering ''openai'' (initial_state 0))
     = Inr [\<lparr>headline = ''hi again'', link = ''https://x.com/openai/status/1'',
              date_posted = ''2024-01-01T00:00:00.000Z''\<rparr>,
            \<lparr>headline = ''second post'', link = ''https://x.com/i/status/2'',
              date_posted = ''2024-01-01T12:00:00.000Z''\<rparr>]
   \<and> distinct (map link
        [\<lparr>headline = ''hi again'', link = ''https://x.com/openai/status/1'',
              date_posted = ''2024-01-01T00:00:00.000Z''\<rparr>,
         \<lparr>headline = ''second post'', link = ''https://x.com/i/status/2'',
              date_posted = ''2024-01-01T12:00:00.000Z''\<rparr>])"
proof -
  let ?found = "[\<lparr>headline = ''hi again'', link = ''https://x.com/openai/status/1'',
              date_posted = ''2024-01-01T00:00:00.000Z''\<rparr>,
            \<lparr>headline = ''second post'', link = ''https://x.com/i/status/2'',
              date_posted = ''2024-01-01T12:00:00.000Z''\<rparr>]"
  let ?run = "fetchTweetsFromApify sample_platform env_configured answering ''openai''
                (initial_state 0)"
  have f: "fst ?run = Inr ?found"
    by code_simp
  then have "?run = (Inr ?found, snd ?run)"
    by (metis prod.collapse)
  from unique_links_per_call [OF this] f show ?thesis
    by simp
qed

subsection \<open>The date of a story\<close>

text \<open>
  C4 (as stated).  The post of the specification's first scenario has the valid ISO date
  \<open>2024-01-01T00:00:00Z\<close> in \<open>createdAt\<close>; its story carries \<open>2024-01-01T00:00:00.000Z\<close>, another
  string.
\<close>

theorem date_unchanged_counterexample:
  "rawDate tweet_hi = Some ''2024-01-01T00:00:00Z''
   \<and> iso_dateParse ''2024-01-01T00:00:00Z'' = Some 1704067200000
   \<and> map_option date_posted (story_of_item sample_platform ''fallback'' (Some tweet_hi))
       = Some ''2024-01-01T00:00:00.000Z''
   \<and> ''2024-01-01T00:00:00.000Z'' \<noteq> ''2024-01-01T00:00:00Z''"
  by code_simp

text \<open>
  C4 (amended).  When the first present date field of an item is a non-empty string that
  parses to a valid date, the story of the item carries in \<open>date_posted\<close> what \<open>toISOString\<close>
  gives for the parsed time value, never the fallback: the same string when the field is
  already in that form, and a string that parses to the same time value on a platform whose
  \<open>Date\<close> reads back what \<open>toISOString\<close> writes.
\<close>

theorem date_posted_is_parsed_date:
  assumes "rawDate item = Some r" and "r \<noteq> []" and "dateParse pf r = Some t"
    and "story_of_item pf fb (Some item) = Some s"
  shows "date_posted s = toISOString pf t
         \<and> (toISOString pf t = r \<longrightarrow> date_posted s = r)
         \<and> (dateParse pf (toISOString pf t) = Some t
              \<longrightarrow> dateParse pf (date_posted s) = dateParse pf r)"
proof -
  from assms(1-3) have "parsedDateIso pf fb item = toISOString pf t"
    by (simp add: parsedDateIso_def)
  moreover from assms(4) have "date_posted s = parsedDateIso pf fb item"
    by (auto simp: story_of_item_def Let_def split: if_splits option.splits)
  ultimately show ?thesis
    using assms(3) by simp
qed

theorem date_posted_is_parsed_date_witness:
  "rawDate tweet_other = Some ''2024-01-01T12:00:00.000Z''
   \<and> ''2024-01-01T12:00:00.000Z'' \<noteq> []
   \<and> dateParse sample_platform ''2024-01-01T12:00:00.000Z'' = Some 1704110400000
   \<and> story_of_item sample_platform ''fallback'' (Some tweet_other)
       = Some \<lparr>headline = ''second post'', link = ''https://x.com/i/status/2'',
               date_posted = ''2024-01-01T12:00:00.000Z''\<rparr>
   \<and> toISOString sample_platform 1704110400000 = ''2024-01-01T12:00:00.000Z''
   \<and> dateParse sample_platform (toISOString sample_platform 1704110400000) = Some 1704110400000
   \<and> date_posted \<lparr>headline = ''second post'', link = ''https://x.com/i/status/2'',
               date_posted = ''2024-01-01T12:00:00.000Z''\<rparr>
       = toISOString sample_platform 1704110400000"
proof -
  let ?s = "\<lparr>headline = ''second post'', link = ''https://x.com/i/status/2'',
               date_posted = ''2024-01-01T12:00:00.000Z''\<rparr>"
  have a: "rawDate tweet_other = Some ''2024-01-01T12:00:00.000Z''"
    by code_simp
  have b: "''2024-01-01T12:00:00.000Z'' \<noteq> []"
    by simp
  have c: "dateParse sample_platform ''2024-01-01T12:00:00.000Z'' = Some 1704110400000"
    by code_simp
  have d: "story_of_item sample_platform ''fallback'' (Some tweet_other) = Some ?s"
    by code_simp
  have e: "toISOString sample_platform 1704110400000 = ''2024-01-01T12:00:00.000Z''"
    by code_simp
  have f: "dateParse sample_platform (toISOString sample_platform 1704110400000)
             = Some 1704110400000"
    by code_simp
  from date_posted_is_parsed_date [OF a b c d] a b c d e f show ?thesis
    by simp
qed


subsection \<open>Items the normalizer drops\<close>

text \<open>
  C7 (as stated).  An item with text, no URL field and a blank id (one space) is kept, under
  the link synthesized from the id; an item whose type tag is present as the empty string,
  which is not \<open>tweet\<close>, is kept too.
\<close>

theorem unusable_items_counterexample:
  "blank (item_url (no_item\<lparr>item_text := Some ''hi'', item_id := Some '' ''\<rparr>))
   \<and> blank (item_twitterUrl (no_item\<lparr>item_text := Some ''hi'', item_id := Some '' ''\<rparr>))
   \<and> blank (item_id (no_item\<lparr>item_text := Some ''hi'', item_id := Some '' ''\<rparr>))
   \<and> mapApifyItemsToStories sample_platform
        [Some (no_item\<lparr>item_text := Some ''hi'', item_id := Some '' ''\<rparr>)] ''fallback''
       = [\<lparr>headline = ''hi'', link = ''https://x.com/i/status/'', date_posted = ''fallback''\<rparr>]
   \<and> mapApifyItemsToStories sample_platform
        [Some (no_item\<lparr>item_text := Some ''hi'', item_url := Some ''https://x.com/a/status/2'',
                       item_type := Some ''''\<rparr>)] ''fallback''
       = [\<lparr>headline = ''hi'', link = ''https://x.com/a/status/2'', date_posted = ''fallback''\<rparr>]"
  by code_simp

lemma find_link_None:
  "blank (item_url item) \<Longrightarrow> blank (item_twitterUrl item) \<Longrightarrow> \<not> truthy (item_id item) \<Longrightarrow>
   find_link item = None"
  by (cases "item_url item"; cases "item_twitterUrl item"; cases "item_id item")
     (simp_all add: find_link_def candidateLinks_def)

text \<open>
  C7 (amended).  The normalizer gives no story for an item, and its output is the output
  for the list without the item, when
  \<^item> the \<open>url\<close> and \<open>twitterUrl\<close> fields are absent or blank and the \<open>id\<close> is absent or the
    empty string, or
  \<^item> the text (\<open>text\<close>, or \<open>full_text\<close> when \<open>text\<close> is absent) is absent or blank, or
  \<^item> the type tag is a non-empty string other than \<open>tweet\<close>.
\<close>

theorem unusable_items_excluded:
  assumes "(blank (item_url item) \<and> blank (item_twitterUrl item) \<and> \<not> truthy (item_id item))
           \<or> blank (nullish_or (item_text item) (item_full_text item))
           \<or> (truthy (item_type item) \<and> item_type item \<noteq> Some ''tweet'')"
  shows "story_of_item pf fb (Some item) = None
         \<and> mapApifyItemsToStories pf (xs @ Some item # ys) fb
             = mapApifyItemsToStories pf (xs @ ys) fb"
proof -
  have none: "story_of_item pf fb (Some item) = None"
    using assms
  proof (elim disjE)
    assume "blank (item_url item) \<and> blank (item_twitterUrl item) \<and> \<not> truthy (item_id item)"
    then have "find_link item = None"
      by (simp add: find_link_None)
    then show ?thesis
      by (simp add: story_of_item_def Let_def)
  next
    assume "blank (nullish_or (item_text item) (item_full_text item))"
    then have "trim (case nullish_or (item_text item) (item_full_text item) of
                       None \<Rightarrow> [] | Some h \<Rightarrow> h) = []"
      by (cases "nullish_or (item_text item) (item_full_text item)") (simp_all add: trim_def)
    then show ?thesis
      by (simp add: story_of_item_def Let_def)
  next
    assume "truthy (item_type item) \<and> item_type item \<noteq> Some ''tweet''"
    then show ?thesis
      by (simp add: story_of_item_def)
  qed
  then show ?thesis
    by (simp add: mapApifyItemsToStories_def map_loop_skip)
qed

text \<open>
  One item for each of the three reasons: a URL of a no-break space and a space with an
  empty id (dropped from between two kept items), a text of a tab and a no-break space, and
  the type tag \<open>user\<close>.
\<close>

theorem unusable_items_excluded_witness:
  "(blank (item_url (no_item\<lparr>item_text := Some ''hi'', item_url := Some [CHR 0xA0, CHR 0x20], item_id := Some ''''\<rparr>))
    \<and> blank (item_twitterUrl (no_item\<lparr>item_text := Some ''hi'', item_url := Some [CHR 0xA0, CHR 0x20], item_id := Some ''''\<rparr>))
    \<and> \<not> truthy (item_id (no_item\<lparr>item_text := Some ''hi'', item_url := Some [CHR 0xA0, CHR 0x20], item_id := Some ''''\<rparr>)))
   \<and> blank (nullish_or (item_text (tweet_hi\<lparr>item_text := Some [CHR 0x09, CHR 0xA0]\<rparr>))
                        (item_full_text (tweet_hi\<lparr>item_text := Some [CHR 0x09, CHR 0xA0]\<rparr>)))
   \<and> (truthy (item_type (tweet_hi\<lparr>item_type := Some ''user''\<rparr>))
      \<and> item_type (tweet_hi\<lparr>item_type := Some ''user''\<rparr>) \<noteq> Some ''tweet'')
   \<and> mapApifyItemsToStories sample_platform
        ([Some tweet_hi]
         @ Some (no_item\<lparr>item_text := Some ''hi'', item_url := Some [CHR 0xA0, CHR 0x20], item_id := Some ''''\<rparr>)
         # [Some tweet_other]) ''fallback''
       = mapApifyItemsToStories sample_platform ([Some tweet_hi] @ [Some tweet_other]) ''fallback''
   \<and> story_of_item sample_platform ''fallback'' (Some (tweet_hi\<lparr>item_text := Some [CHR 0x09, CHR 0xA0]\<rparr>)) = None
   \<and> story_of_item sample_platform ''fallback'' (Some (tweet_hi\<lparr>item_type := Some ''user''\<rparr>)) = None"
proof -
  let ?a = "no_item\<lparr>item_text := Some ''hi'', item_url := Some [CHR 0xA0, CHR 0x20], item_id := Some ''''\<rparr>"
  let ?b = "tweet_hi\<lparr>item_text := Some [CHR 0x09, CHR 0xA0]\<rparr>"
  let ?c = "tweet_hi\<lparr>item_type := Some ''user''\<rparr>"
  have a: "blank (item_url ?a) \<and> blank (item_twitterUrl ?a) \<and> \<not> truthy (item_id ?a)"
    by code_simp
  have b: "blank (nullish_or (item_text ?b) (item_full_text ?b))"
    by code_simp
  have c: "truthy (item_type ?c) \<and> item_type ?c \<noteq> Some ''tweet''"
    by code_simp
  from a have a': "(blank (item_url ?a) \<and> blank (item_twitterUrl ?a) \<and> \<not> truthy (item_id ?a))
           \<or> blank (nullish_or (item_text ?a) (item_full_text ?a))
           \<or> (truthy (item_type ?a) \<and> item_type ?a \<noteq> Some ''tweet'')"
    by blast
  from b have b': "(blank (item_url ?b) \<and> blank (item_twitterUrl ?b) \<and> \<not> truthy (item_id ?b))
           \<or> blank (nullish_or (item_text ?b) (item_full_text ?b))
           \<or> (truthy (item_type ?b) \<and> item_type ?b \<noteq> Some ''tweet'')"
    by blast
  from c have c': "(blank (item_url ?c) \<and> blank (item_twitterUrl ?c) \<and> \<not> truthy (item_id ?c))
           \<or> blank (nullish_or (item_text ?c) (item_full_text ?c))
           \<or> (truthy (item_type ?c) \<and> item_type ?c \<noteq> Some ''tweet'')"
    by blast
  note ra = unusable_items_excluded [OF a', of sample_platform "''fallback''"
              "[Some tweet_hi]" "[Some tweet_other]"]
  note rb = unusable_items_excluded [OF b', of sample_platform "''fallback''" "[]" "[]"]
  note rc = unusable_items_excluded [OF c', of sample_platform "''fallback''" "[]" "[]"]
  from a b c ra rb rc show ?thesis
    by blast
qed

subsection \<open>The item count\<close>

lemma apifyMaxItems_range: "0 < apifyMaxItems env \<and> apifyMaxItems env \<le> 100"
  by (simp add: apifyMaxItems_def split: option.splits jsnumber.splits)

text \<open>
  C8.  The configured item count is positive and at most 100 whatever the environment
  variable holds, it is 20 when the variable is unset, empty, or does not start (after
  whitespace and a sign) with the digits of a positive number, and the list a call of
  \<open>fetchTweetsFromApify\<close> returns is never longer than the count.
\<close>

theorem max_items_bounds:
  "0 < apifyMaxItems env \<and> apifyMaxItems env \<le> 100
   \<and> (APIFY_TWITTER_MAX_ITEMS env = None \<or> APIFY_TWITTER_MAX_ITEMS env = Some []
        \<longrightarrow> apifyMaxItems env = 20)
   \<and> (\<forall>raw. APIFY_TWITTER_MAX_ITEMS env = Some raw
          \<and> (\<forall>n. parseInt10 raw = Finite n \<longrightarrow> n \<le> 0) \<longrightarrow> apifyMaxItems env = 20)
   \<and> (fetchTweetsFromApify pf env bk username st = (Inr found, st')
        \<longrightarrow> int (length found) \<le> apifyMaxItems env)"
proof (intro conjI impI allI)
  show "0 < apifyMaxItems env" and "apifyMaxItems env \<le> 100"
    using apifyMaxItems_range [of env] by simp_all
next
  assume "APIFY_TWITTER_MAX_ITEMS env = None \<or> APIFY_TWITTER_MAX_ITEMS env = Some []"
  then show "apifyMaxItems env = 20"
    by (auto simp: apifyMaxItems_def)
next
  fix raw
  assume "APIFY_TWITTER_MAX_ITEMS env = Some raw \<and> (\<forall>n. parseInt10 raw = Finite n \<longrightarrow> n \<le> 0)"
  then show "apifyMaxItems env = 20"
    by (auto simp: apifyMaxItems_def split: jsnumber.splits)
next
  assume "fetchTweetsFromApify pf env bk username st = (Inr found, st')"
  from fetchTweets_cases [OF this] apifyMaxItems_range [of env]
  show "int (length found) \<le> apifyMaxItems env"
    by auto
qed

text \<open>
  The count is 20 without the variable and for \<open>-5\<close>, it is 100 for \<open>250\<close>, and with a
  count of 1 the call that finds two stories returns one.
\<close>

theorem max_items_bounds_witness:
  "APIFY_TWITTER_MAX_ITEMS env_configured = None
   \<and> apifyMaxItems env_configured = 20
   \<and> parseInt10 ''-5'' = Finite (- 5)
   \<and> apifyMaxItems (env_configured\<lparr>APIFY_TWITTER_MAX_ITEMS := Some ''-5''\<rparr>) = 20
   \<and> apifyMaxItems (env_configured\<lparr>APIFY_TWITTER_MAX_ITEMS := Some ''250''\<rparr>) = 100
   \<and> apifyMaxItems (env_configured\<lparr>APIFY_TWITTER_MAX_ITEMS := Some ''1''\<rparr>) = 1
   \<and> fst (fetchTweetsFromApify sample_platform
             (env_configured\<lparr>APIFY_TWITTER_MAX_ITEMS := Some ''1''\<rparr>) answering ''openai''
             (initial_state 0))
       = Inr [\<lparr>headline = ''hi again'', link = ''https://x.com/openai/status/1'',
                date_posted = ''2024-01-01T00:00:00.000Z''\<rparr>]
   \<and> int (length [\<lparr>headline = ''hi again'', link = ''https://x.com/openai/status/1'',
                     date_posted = ''2024-01-01T00:00:00.000Z''\<rparr>])
       \<le> apifyMaxItems (env_configured\<lparr>APIFY_TWITTER_MAX_ITEMS := Some ''1''\<rparr>)"
proof -
  let ?neg = "env_configured\<lparr>APIFY_TWITTER_MAX_ITEMS := Some ''-5''\<rparr>"
  let ?one = "env_configured\<lparr>APIFY_TWITTER_MAX_ITEMS := Some ''1''\<rparr>"
  let ?found = "[\<lparr>headline = ''hi again'', link = ''https://x.com/openai/status/1'',
                  date_posted = ''2024-01-01T00:00:00.000Z''\<rparr>]"
  let ?run = "fetchTweetsFromApify sample_platform ?one answering ''openai'' (initial_state 0)"
  have a: "APIFY_TWITTER_MAX_ITEMS env_configured = None"
    by code_simp
  have b: "parseInt10 ''-5'' = Finite (- 5)"
    by code_simp
  have c: "apifyMaxItems (env_configured\<lparr>APIFY_TWITTER_MAX_ITEMS := Some ''250''\<rparr>) = 100"
    by code_simp
  have d: "apifyMaxItems ?one = 1"
    by code_simp
  have e: "fst ?run = Inr ?found"
    by code_simp
  then have e': "?run = (Inr ?found, snd ?run)"
    by (metis prod.collapse)
  from a max_items_bounds [of env_configured] have a': "apifyMaxItems env_configured = 20"
    by blast
  have "APIFY_TWITTER_MAX_ITEMS ?neg = Some ''-5'' \<and> (\<forall>n. parseInt10 ''-5'' = Finite n \<longrightarrow> n \<le> 0)"
    using b by simp
  with max_items_bounds [of ?neg] have b': "apifyMaxItems ?neg = 20"
    by blast
  from e' max_items_bounds [of ?one sample_platform answering "''openai''" "initial_state 0" ?found
      "snd ?run"]
  have e'': "int (length ?found) \<le> apifyMaxItems ?one"
    by blast
  from a a' b b' c d e e'' show ?thesis
    by simp
qed


section \<open>The aggregator\<close>

subsection \<open>What one backend call does to the loop state\<close>

lemma emit_fields [simp]:
  "console (emit e st) = console st @ [e]"
  "world (emit e st) = world st"
  "stories (emit e st) = stories st"
  "sawTwitterSource (emit e st) = sawTwitterSource st"
  "processedTwitterUsernames (emit e st) = processedTwitterUsernames st"
  by (simp_all add: emit_def)

lemma plain_line_simps [simp]:
  "plain_line (FirecrawlExtract s)" "plain_line Warn_UnexpectedFormat"
  "plain_line (Log_NoTweets u)" "plain_line (Log_TweetsFound u)"
  "plain_line (Error_FetchingTweets u e)" "plain_line (Warn_SkippingXSource s)"
  "plain_line (Log_Found k s)" "plain_line (Error_NoStoriesKey s)"
  "plain_line (Error_RateLimit s)" "plain_line (Error_Scraping s e)"
  "plain_line (Log_CombinedStories ss)"
  "\<not> plain_line (ApifyRequest ep req)" "\<not> plain_line Log_XSourcesSkipped"
  by (simp_all add: plain_line_def)

lemma fetchTweets_state:
  assumes "hasApifyCredentials env"
    and "fetchTweetsFromApify pf env bk username st = (r, st')"
  shows "\<exists>ep req rest. console st' = console st @ ApifyRequest ep req # rest
           \<and> from_user req = username \<and> list_all plain_line rest
           \<and> stories st' = stories st \<and> sawTwitterSource st' = sawTwitterSource st
           \<and> processedTwitterUsernames st' = processedTwitterUsernames st"
  using assms
  by (auto simp: fetchTweetsFromApify_def apifyEndpoint_def Let_def
           split: prod.splits sum.splits if_splits items_value.splits)

lemma scrape_tweets_state:
  assumes "hasApifyCredentials env"
  shows "\<exists>st' ep req rest. scrape_tweets pf env bk st username = Inr st'
           \<and> console st' = console st @ ApifyRequest ep req # rest
           \<and> from_user req = username \<and> list_all plain_line rest
           \<and> sawTwitterSource st' = sawTwitterSource st
           \<and> processedTwitterUsernames st' = processedTwitterUsernames st"
proof -
  obtain r st1 where f: "fetchTweetsFromApify pf env bk username st = (r, st1)"
    by (cases "fetchTweetsFromApify pf env bk username st")
  from fetchTweets_state [OF assms f] obtain ep req rest
    where c: "console st1 = console st @ ApifyRequest ep req # rest"
      and u: "from_user req = username" and p: "list_all plain_line rest"
      and s: "sawTwitterSource st1 = sawTwitterSource st"
      and n: "processedTwitterUsernames st1 = processedTwitterUsernames st"
    by blast
  show ?thesis
  proof (cases r)
    case (Inl e)
    with f c u p s n show ?thesis
      by (simp add: scrape_tweets_def)
  next
    case (Inr found)
    with f c u p s n show ?thesis
      by (cases "found = []") (simp_all add: scrape_tweets_def)
  qed
qed

lemma scrape_page_try_state:
  "\<exists>r st' rest. scrape_page_try bk st source = (r, st')
     \<and> console st' = console st @ FirecrawlExtract source # rest
     \<and> list_all plain_line rest
     \<and> sawTwitterSource st' = sawTwitterSource st
     \<and> processedTwitterUsernames st' = processedTwitterUsernames st"
  by (auto simp: scrape_page_try_def Let_def split: prod.splits sum.splits scrape_data.splits)

lemma catch_scrape_error_state:
  assumes "catch_scrape_error source e st = Inr st'"
  shows "\<exists>line. console st' = console st @ [line] \<and> plain_line line
           \<and> sawTwitterSource st' = sawTwitterSource st
           \<and> processedTwitterUsernames st' = processedTwitterUsernames st"
  using assms by (auto simp: catch_scrape_error_def split: sum.splits if_splits)

lemma catch_scrape_error_returns:
  "e \<noteq> ThrownNullish \<Longrightarrow> \<exists>st'. catch_scrape_error source e st = Inr st'"
  by (cases e) (simp_all add: catch_scrape_error_def)

lemma scrape_page_state:
  assumes "scrape_page bk st source = Inr st'"
  shows "\<exists>rest. console st' = console st @ FirecrawlExtract source # rest
           \<and> list_all plain_line rest
           \<and> sawTwitterSource st' = sawTwitterSource st
           \<and> processedTwitterUsernames st' = processedTwitterUsernames st"
proof -
  from scrape_page_try_state [of bk st source] obtain r st1 rest
    where t: "scrape_page_try bk st source = (r, st1)"
      and c: "console st1 = console st @ FirecrawlExtract source # rest"
      and p: "list_all plain_line rest"
      and s: "sawTwitterSource st1 = sawTwitterSource st"
      and n: "processedTwitterUsernames st1 = processedTwitterUsernames st"
    by blast
  show ?thesis
  proof (cases r)
    case (Inl e)
    with assms t have "catch_scrape_error source e st1 = Inr st'"
      by (simp add: scrape_page_def)
    from catch_scrape_error_state [OF this] obtain line
      where "console st' = console st1 @ [line]" and "plain_line line"
        and "sawTwitterSource st' = sawTwitterSource st1"
        and "processedTwitterUsernames st' = processedTwitterUsernames st1"
      by blast
    with c p s n show ?thesis
      by (intro exI [of _ "rest @ [line]"]) simp
  next
    case (Inr finished)
    with assms t have "st' = st1"
      by (simp add: scrape_page_def)
    with c p s n show ?thesis
      by blast
  qed
qed

lemma scrape_page_returns:
  assumes "fst (app_extract bk source (world st)) \<noteq> Inl ThrownNullish"
  shows "\<exists>st'. scrape_page bk st source = Inr st'"
proof -
  obtain r st1 where t: "scrape_page_try bk st source = (r, st1)"
    by (cases "scrape_page_try bk st source")
  show ?thesis
  proof (cases r)
    case (Inl e)
    with t assms have "e \<noteq> ThrownNullish"
      by (auto simp: scrape_page_try_def Let_def
               split: prod.splits sum.splits if_splits scrape_data.splits)
    from catch_scrape_error_returns [OF this, of source st1] Inl t show ?thesis
      by (simp add: scrape_page_def)
  next
    case (Inr finished)
    with t show ?thesis
      by (simp add: scrape_page_def)
  qed
qed

subsection \<open>The four ways through the loop body\<close>

lemma is_social_iff: "is_social pf source \<longleftrightarrow> normalized_username pf source \<noteq> None"
  by (simp add: is_social_def normalized_username_def split: option.splits)

lemma step_already_processed:
  assumes "hasApifyCredentials env" and "normalized_username pf source = Some n"
    and "n \<in> processedTwitterUsernames st"
  shows "scrape_source pf env bk st source = Inr (st\<lparr>sawTwitterSource := True\<rparr>)"
  using assms
  by (auto simp: scrape_source_def normalized_username_def Let_def split: option.splits if_splits)

lemma step_first_time:
  assumes "hasApifyCredentials env" and "extractTwitterUsername pf source = Some u" and "u \<noteq> []"
    and "toLowerCase u \<notin> processedTwitterUsernames st"
  shows "scrape_source pf env bk st source
         = scrape_tweets pf env bk
             (st\<lparr>sawTwitterSource := True,
                 processedTwitterUsernames := insert (toLowerCase u) (processedTwitterUsernames st)\<rparr>) u"
  using assms by (simp add: scrape_source_def Let_def)

lemma step_not_configured:
  assumes "\<not> hasApifyCredentials env" and "is_social pf source"
  shows "scrape_source pf env bk st source
         = Inr (emit (Warn_SkippingXSource source) (st\<lparr>sawTwitterSource := True\<rparr>))"
  using assms by (auto simp: scrape_source_def is_social_def Let_def split: option.splits)

lemma step_generic:
  assumes "\<not> is_social pf source"
  shows "scrape_source pf env bk st source = scrape_page bk st source"
  using assms by (auto simp: scrape_source_def is_social_def useScrape_def Let_def split: option.splits)

text \<open>The summary of one iteration that ends normally.\<close>

lemma scrape_source_step:
  assumes "scrape_source pf env bk st source = Inr st'"
  shows "\<exists>evs. console st' = console st @ evs
     \<and> Log_XSourcesSkipped \<notin> set evs
     \<and> sawTwitterSource st' = (sawTwitterSource st \<or> is_social pf source)
     \<and> processedTwitterUsernames st'
         = (if hasApifyCredentials env
            then processedTwitterUsernames st \<union> set_option (normalized_username pf source)
            else processedTwitterUsernames st)
     \<and> (\<forall>n. length (filter (apify_call_for n) evs)
            = (if hasApifyCredentials env \<and> normalized_username pf source = Some n
                  \<and> n \<notin> processedTwitterUsernames st then 1 else 0))"
proof (cases "is_social pf source")
  case False
  then have none: "normalized_username pf source = None"
    by (simp add: is_social_iff)
  from assms False have "scrape_page bk st source = Inr st'"
    by (simp add: step_generic)
  from scrape_page_state [OF this] obtain rest
    where "console st' = console st @ FirecrawlExtract source # rest"
      and "list_all plain_line rest"
      and "sawTwitterSource st' = sawTwitterSource st"
      and "processedTwitterUsernames st' = processedTwitterUsernames st"
    by blast
  with False none show ?thesis
    by (intro exI [of _ "FirecrawlExtract source # rest"])
       (auto simp: list_all_iff plain_line_def filter_empty_conv
             elim!: apify_call_for.elims)
next
  case True
  then obtain u where u: "extractTwitterUsername pf source = Some u" "u \<noteq> []"
    by (auto simp: is_social_def elim: truthy.elims)
  then have n: "normalized_username pf source = Some (toLowerCase u)"
    by (simp add: normalized_username_def)
  show ?thesis
  proof (cases "hasApifyCredentials env")
    case False
    with True assms
    have "st' = emit (Warn_SkippingXSource source) (st\<lparr>sawTwitterSource := True\<rparr>)"
      by (simp add: step_not_configured)
    with False True n show ?thesis
      by (intro exI [of _ "[Warn_SkippingXSource source]"]) simp
  next
    case conf: True
    show ?thesis
    proof (cases "toLowerCase u \<in> processedTwitterUsernames st")
      case True
      with conf n assms have "st' = st\<lparr>sawTwitterSource := True\<rparr>"
        by (simp add: step_already_processed)
      with True conf n \<open>is_social pf source\<close> show ?thesis
        by (intro exI [of _ "[]"]) auto
    next
      case False
      let ?st = "st\<lparr>sawTwitterSource := True,
                   processedTwitterUsernames := insert (toLowerCase u) (processedTwitterUsernames st)\<rparr>"
      from scrape_tweets_state [OF conf, of pf bk ?st u] obtain st1 ep req rest
        where r: "scrape_tweets pf env bk ?st u = Inr st1"
          and c: "console st1 = console st @ ApifyRequest ep req # rest"
          and f: "from_user req = u" and p: "list_all plain_line rest"
          and s: "sawTwitterSource st1 = True"
          and m: "processedTwitterUsernames st1
                    = insert (toLowerCase u) (processedTwitterUsernames st)"
        by auto
      from assms r conf u False have same: "st' = st1"
        by (simp add: step_first_time)
      have quiet: "filter (apify_call_for k) rest = []" for k
        using p by (auto simp: list_all_iff plain_line_def filter_empty_conv
                         elim!: apify_call_for.elims)
      have "Log_XSourcesSkipped \<notin> set rest"
        using p by (auto simp: list_all_iff)
      with conf n False u c f s m quiet same \<open>is_social pf source\<close> show ?thesis
        by (intro exI [of _ "ApifyRequest ep req # rest"]) auto
    qed
  qed
qed

text \<open>An iteration ends normally unless its Firecrawl call rejects with \<open>null\<close> or \<open>undefined\<close>.\<close>

lemma scrape_source_returns:
  assumes "extract_rejects_objects bk"
  shows "\<exists>st'. scrape_source pf env bk st source = Inr st'"
proof (cases "is_social pf source")
  case False
  from assms have "fst (app_extract bk source (world st)) \<noteq> Inl ThrownNullish"
    by (simp add: extract_rejects_objects_def)
  from scrape_page_returns [OF this] False show ?thesis
    by (simp add: step_generic)
next
  case True
  then obtain u where u: "extractTwitterUsername pf source = Some u" "u \<noteq> []"
    by (auto simp: is_social_def elim: truthy.elims)
  then have n: "normalized_username pf source = Some (toLowerCase u)"
    by (simp add: normalized_username_def)
  show ?thesis
  proof (cases "hasApifyCredentials env")
    case False
    with True show ?thesis
      by (simp add: step_not_configured)
  next
    case conf: True
    show ?thesis
    proof (cases "toLowerCase u \<in> processedTwitterUsernames st")
      case True
      with conf n show ?thesis
        by (simp add: step_already_processed)
    next
      case False
      from scrape_tweets_state [OF conf] step_first_time [OF conf u False, of bk]
      show ?thesis
        by metis
    qed
  qed
qed


subsection \<open>The loop\<close>

lemma scrape_loop_append:
  "scrape_loop pf env bk st (xs @ ys)
   = (case scrape_loop pf env bk st xs of Inl e \<Rightarrow> Inl e | Inr st' \<Rightarrow> scrape_loop pf env bk st' ys)"
proof (induction xs arbitrary: st)
  case Nil
  show ?case by simp
next
  case (Cons x xs)
  show ?case
    by (cases "scrape_source pf env bk st (source_identifier x)") (simp_all add: Cons.IH)
qed

lemma scrape_loop_run:
  assumes "scrape_loop pf env bk st sources = Inr st'"
  shows "\<exists>evs. console st' = console st @ evs
     \<and> Log_XSourcesSkipped \<notin> set evs
     \<and> sawTwitterSource st'
         = (sawTwitterSource st \<or> (\<exists>s \<in> set sources. is_social pf (source_identifier s)))
     \<and> processedTwitterUsernames st \<subseteq> processedTwitterUsernames st'
     \<and> (hasApifyCredentials env \<longrightarrow>
          (\<forall>s \<in> set sources. set_option (normalized_username pf (source_identifier s))
                                \<subseteq> processedTwitterUsernames st'))"
  using assms
proof (induction sources arbitrary: st)
  case Nil
  then show ?case by simp
next
  case (Cons x xs)
  from Cons.prems obtain st1
    where s1: "scrape_source pf env bk st (source_identifier x) = Inr st1"
      and s2: "scrape_loop pf env bk st1 xs = Inr st'"
    by (auto split: sum.splits)
  from scrape_source_step [OF s1] obtain evs1
    where c1: "console st1 = console st @ evs1"
      and q1: "Log_XSourcesSkipped \<notin> set evs1"
      and w1: "sawTwitterSource st1 = (sawTwitterSource st \<or> is_social pf (source_identifier x))"
      and p1: "processedTwitterUsernames st1
                 = (if hasApifyCredentials env
                    then processedTwitterUsernames st
                           \<union> set_option (normalized_username pf (source_identifier x))
                    else processedTwitterUsernames st)"
    by blast
  from Cons.IH [OF s2] obtain evs2
    where c2: "console st' = console st1 @ evs2"
      and q2: "Log_XSourcesSkipped \<notin> set evs2"
      and w2: "sawTwitterSource st'
                 = (sawTwitterSource st1 \<or> (\<exists>s \<in> set xs. is_social pf (source_identifier s)))"
      and p2: "processedTwitterUsernames st1 \<subseteq> processedTwitterUsernames st'"
      and m2: "hasApifyCredentials env \<longrightarrow>
                 (\<forall>s \<in> set xs. set_option (normalized_username pf (source_identifier s))
                                 \<subseteq> processedTwitterUsernames st')"
    by blast
  have "console st' = console st @ (evs1 @ evs2)"
    using c1 c2 by simp
  moreover have "Log_XSourcesSkipped \<notin> set (evs1 @ evs2)"
    using q1 q2 by simp
  moreover have "sawTwitterSource st'
         = (sawTwitterSource st \<or> (\<exists>s \<in> set (x # xs). is_social pf (source_identifier s)))"
    using w1 w2 by auto
  moreover have "processedTwitterUsernames st \<subseteq> processedTwitterUsernames st'"
    using p1 p2 by (auto split: if_splits)
  moreover have "hasApifyCredentials env \<longrightarrow>
          (\<forall>s \<in> set (x # xs). set_option (normalized_username pf (source_identifier s))
                                \<subseteq> processedTwitterUsernames st')"
    using p1 p2 m2 by (auto split: if_splits)
  ultimately show ?case
    by blast
qed

lemma scrape_loop_returns:
  assumes "extract_rejects_objects bk"
  shows "\<exists>st'. scrape_loop pf env bk st sources = Inr st'"
proof (induction sources arbitrary: st)
  case Nil
  show ?case by simp
next
  case (Cons x xs)
  from scrape_source_returns [OF assms, of pf env st "source_identifier x"] obtain st1
    where "scrape_source pf env bk st (source_identifier x) = Inr st1"
    by blast
  with Cons.IH [of st1] show ?case
    by simp
qed

lemma step_called_once:
  assumes "called_once st" and "scrape_source pf env bk st source = Inr st'"
  shows "called_once st'"
proof -
  from scrape_source_step [OF assms(2)] obtain evs
    where c: "console st' = console st @ evs"
      and p: "processedTwitterUsernames st'
                 = (if hasApifyCredentials env
                    then processedTwitterUsernames st \<union> set_option (normalized_username pf source)
                    else processedTwitterUsernames st)"
      and k: "\<forall>n. length (filter (apify_call_for n) evs)
            = (if hasApifyCredentials env \<and> normalized_username pf source = Some n
                  \<and> n \<notin> processedTwitterUsernames st then 1 else 0)"
    by auto
  show ?thesis
    unfolding called_once_def
  proof
    fix n
    from assms(1) have old: "length (filter (apify_call_for n) (console st))
            \<le> (if n \<in> processedTwitterUsernames st then 1 else 0)"
      by (simp add: called_once_def)
    from k have new: "length (filter (apify_call_for n) evs)
            = (if hasApifyCredentials env \<and> normalized_username pf source = Some n
                  \<and> n \<notin> processedTwitterUsernames st then 1 else 0)"
      by blast
    show "length (filter (apify_call_for n) (console st'))
            \<le> (if n \<in> processedTwitterUsernames st' then 1 else 0)"
      using old new by (auto simp: c p split: if_splits)
  qed
qed

lemma loop_called_once:
  "called_once st \<Longrightarrow> scrape_loop pf env bk st sources = Inr st' \<Longrightarrow> called_once st'"
proof (induction sources arbitrary: st)
  case Nil
  then show ?case by simp
next
  case (Cons x xs)
  from Cons.prems(2) obtain st1
    where s1: "scrape_source pf env bk st (source_identifier x) = Inr st1"
      and s2: "scrape_loop pf env bk st1 xs = Inr st'"
    by (auto split: sum.splits)
  from step_called_once [OF Cons.prems(1) s1] s2 show ?case
    by (rule Cons.IH)
qed

lemma scrapeSources_console:
  assumes "scrapeSources pf env bk w sources = Inr (out, st)"
  shows "\<exists>st_loop. scrape_loop pf env bk (initial_state w) sources = Inr st_loop
           \<and> out = stories st_loop
           \<and> console st = console st_loop
               @ (if \<not> hasApifyCredentials env \<and> sawTwitterSource st_loop
                  then [Log_XSourcesSkipped] else [])
               @ [Log_CombinedStories out]"
  using assms
  by (auto simp: scrapeSources_def Let_def split: sum.splits if_splits)

text \<open>
  The run returns a list whenever no Firecrawl call rejects with \<open>null\<close> or \<open>undefined\<close>,
  whatever else the two backends do.
\<close>

lemma scrapeSources_total:
  assumes "extract_rejects_objects bk"
  shows "\<exists>out st. scrapeSources pf env bk w sources = Inr (out, st)"
proof -
  from scrape_loop_returns [OF assms, of pf env "initial_state w" sources] obtain st'
    where "scrape_loop pf env bk (initial_state w) sources = Inr st'"
    by blast
  then show ?thesis
    by (simp add: scrapeSources_def Let_def)
qed

lemma answering_rejects_objects: "extract_rejects_objects answering"
  by (simp add: extract_rejects_objects_def answering_def)

text \<open>
  C1 (the run at which the code leaves the property).  One page source, and a Firecrawl
  call that rejects with \<open>undefined\<close>: the \<open>catch\<close> block of line 279 reads \<open>error.statusCode\<close>,
  the \<open>TypeError\<close> of that read leaves the loop, and \<open>scrapeSources\<close> rejects.  The \<open>catch\<close> block
  of the Apify call (line 223) only prints the value: the same rejection from \<open>fetch\<close>
  ends in a console line, and the run returns the empty list.
\<close>

theorem nullish_rejection_escapes:
  "scrape_page_try rejecting_undefined (initial_state 0) ''https://example.com/ai-news''
     = (Inl ThrownNullish,
        (initial_state 0)\<lparr>world := 1, console := [FirecrawlExtract ''https://example.com/ai-news'']\<rparr>)
   \<and> scrapeSources sample_platform env_configured rejecting_undefined 0
        [src ''https://example.com/ai-news''] = Inl TypeError
   \<and> scrapeSources sample_platform env_configured rejecting_undefined 0
        [src ''https://x.com/openai'']
       = Inr ([], (initial_state 0)
                    \<lparr>world := 1,
                     console := [openai_request, Error_FetchingTweets ''openai'' ThrownNullish,
                                 Log_CombinedStories []],
                     sawTwitterSource := True,
                     processedTwitterUsernames := {''openai''}\<rparr>)"
  by code_simp

text \<open>
  C5.  With the social backend configured, a run makes at most one Apify request for any
  username (compared in lower case); and a source whose username equals, in lower case,
  that of an earlier social source is skipped entirely: the run is the run without it.
\<close>

theorem one_call_per_username:
  assumes "hasApifyCredentials env"
    and "extractTwitterUsername pf (source_identifier s1) = Some u1" and "u1 \<noteq> []"
    and "extractTwitterUsername pf (source_identifier s2) = Some u2" and "u2 \<noteq> []"
    and "toLowerCase u1 = toLowerCase u2"
  shows "scrapeSources pf env bk w (pre @ s1 # mid @ s2 # post)
           = scrapeSources pf env bk w (pre @ s1 # mid @ post)
         \<and> (\<forall>sources out st n. scrapeSources pf env bk w sources = Inr (out, st)
              \<longrightarrow> length (filter (apify_call_for n) (console st)) \<le> 1)"
proof
  let ?n = "toLowerCase u1"
  have n1: "normalized_username pf (source_identifier s1) = Some ?n"
    and n2: "normalized_username pf (source_identifier s2) = Some ?n"
    using assms by (simp_all add: normalized_username_def)
  show "scrapeSources pf env bk w (pre @ s1 # mid @ s2 # post)
           = scrapeSources pf env bk w (pre @ s1 # mid @ post)"
  proof (cases "scrape_loop pf env bk (initial_state w) (pre @ s1 # mid)")
    case (Inl e)
    then have "scrape_loop pf env bk (initial_state w) ((pre @ s1 # mid) @ s2 # post) = Inl e"
      and "scrape_loop pf env bk (initial_state w) ((pre @ s1 # mid) @ post) = Inl e"
      by (simp_all only: scrape_loop_append [of pf env bk _ "pre @ s1 # mid"] sum.case)
    then show ?thesis
      by (simp add: scrapeSources_def)
  next
    case run: (Inr st2)
    from scrape_loop_run [OF run]
    have saw: "sawTwitterSource st2
         = (sawTwitterSource (initial_state w)
            \<or> (\<exists>s \<in> set (pre @ s1 # mid). is_social pf (source_identifier s)))"
      and mark: "hasApifyCredentials env \<longrightarrow>
          (\<forall>s \<in> set (pre @ s1 # mid). set_option (normalized_username pf (source_identifier s))
                                \<subseteq> processedTwitterUsernames st2)"
      by blast+
    from mark assms(1) n1 have "?n \<in> processedTwitterUsernames st2"
      by auto
    moreover from saw n1 have "sawTwitterSource st2"
      by (auto simp: is_social_iff)
    ultimately have skip: "scrape_source pf env bk st2 (source_identifier s2) = Inr st2"
      using step_already_processed [OF assms(1) n2, of st2 bk] by simp
    have "scrape_loop pf env bk (initial_state w) ((pre @ s1 # mid) @ s2 # post)
            = scrape_loop pf env bk st2 (s2 # post)"
      by (simp only: scrape_loop_append [of pf env bk _ "pre @ s1 # mid"] run sum.case)
    moreover have "scrape_loop pf env bk (initial_state w) ((pre @ s1 # mid) @ post)
            = scrape_loop pf env bk st2 post"
      by (simp only: scrape_loop_append [of pf env bk _ "pre @ s1 # mid"] run sum.case)
    ultimately have "scrape_loop pf env bk (initial_state w) ((pre @ s1 # mid) @ s2 # post)
            = scrape_loop pf env bk (initial_state w) ((pre @ s1 # mid) @ post)"
      by (simp add: skip)
    then show ?thesis
      by (simp add: scrapeSources_def)
  qed
next
  show "\<forall>sources out st n. scrapeSources pf env bk w sources = Inr (out, st)
              \<longrightarrow> length (filter (apify_call_for n) (console st)) \<le> 1"
  proof (intro allI impI)
    fix sources out st n
    assume "scrapeSources pf env bk w sources = Inr (out, st)"
    from scrapeSources_console [OF this] obtain st_loop
      where l: "scrape_loop pf env bk (initial_state w) sources = Inr st_loop"
        and c: "console st = console st_loop
               @ (if \<not> hasApifyCredentials env \<and> sawTwitterSource st_loop
                  then [Log_XSourcesSkipped] else [])
               @ [Log_CombinedStories out]"
      by blast
    have "called_once (initial_state w)"
      by (simp add: called_once_def initial_state_def)
    from loop_called_once [OF this l]
    have "length (filter (apify_call_for n) (console st_loop)) \<le> 1"
      by (auto simp: called_once_def dest: spec [of _ n] split: if_splits)
    then show "length (filter (apify_call_for n) (console st)) \<le> 1"
      by (simp add: c)
  qed
qed


text \<open>
  A page, a profile, and the same profile again in another spelling: one request for
  \<open>openai\<close>, and the run is the run of the first two sources.
\<close>

theorem one_call_per_username_witness:
  "hasApifyCredentials env_configured
   \<and> extractTwitterUsername sample_platform (source_identifier (src ''https://x.com/openai''))
       = Some ''openai''
   \<and> extractTwitterUsername sample_platform (source_identifier (src ''x.com/@OpenAI''))
       = Some ''OpenAI''
   \<and> toLowerCase ''openai'' = toLowerCase ''OpenAI''
   \<and> scrapeSources sample_platform env_configured answering 0
        [src ''https://example.com'', src ''https://x.com/openai'', src ''x.com/@OpenAI'']
       = scrapeSources sample_platform env_configured answering 0
        [src ''https://example.com'', src ''https://x.com/openai'']
   \<and> filter (apify_call_for ''openai'')
        (final_console (scrapeSources sample_platform env_configured answering 0
           [src ''https://example.com'', src ''https://x.com/openai'', src ''x.com/@OpenAI'']))
       = [openai_request]
   \<and> length (filter (apify_call_for ''openai'')
        (final_console (scrapeSources sample_platform env_configured answering 0
           [src ''https://example.com'', src ''https://x.com/openai'', src ''x.com/@OpenAI''])))
       \<le> 1"
proof -
  let ?three = "[src ''https://example.com'', src ''https://x.com/openai'', src ''x.com/@OpenAI'']"
  let ?run = "scrapeSources sample_platform env_configured answering 0 ?three"
  have a: "hasApifyCredentials env_configured"
    by code_simp
  have b: "extractTwitterUsername sample_platform (source_identifier (src ''https://x.com/openai''))
             = Some ''openai''"
    by code_simp
  have c: "extractTwitterUsername sample_platform (source_identifier (src ''x.com/@OpenAI''))
             = Some ''OpenAI''"
    by code_simp
  have d: "toLowerCase ''openai'' = toLowerCase ''OpenAI''"
    by code_simp
  have e: "filter (apify_call_for ''openai'') (final_console ?run) = [openai_request]"
    by code_simp
  have ne: "''openai'' \<noteq> []" "''OpenAI'' \<noteq> []"
    by simp_all
  note inst = one_call_per_username [OF a b ne(1) c ne(2) d, of answering 0
               "[src ''https://example.com'']" "[]" "[]"]
  from inst have same: "scrapeSources sample_platform env_configured answering 0
        ([src ''https://example.com''] @ src ''https://x.com/openai'' # [] @ src ''x.com/@OpenAI'' # [])
       = scrapeSources sample_platform env_configured answering 0
        ([src ''https://example.com''] @ src ''https://x.com/openai'' # [] @ [])"
    by simp
  obtain out st where r: "?run = Inr (out, st)"
    using scrapeSources_total [OF answering_rejects_objects, of sample_platform env_configured 0
            ?three]
    by blast
  from inst have "\<forall>sources out st n.
          scrapeSources sample_platform env_configured answering 0 sources = Inr (out, st)
          \<longrightarrow> length (filter (apify_call_for n) (console st)) \<le> 1"
    by (rule conjunct2)
  with r have "length (filter (apify_call_for ''openai'') (console st)) \<le> 1"
    by blast
  with r have "length (filter (apify_call_for ''openai'') (final_console ?run)) \<le> 1"
    by (simp add: final_console_def)
  with a b c d e same show ?thesis
    by simp
qed









text \<open>
  C10.  With the social backend configured, the \<open>try\<close> block of a username not seen before
  is entered with the username already recorded.  So the username is recorded when the call
  rejects and when it yields no story, and after any further sources a source with the same
  username in lower case changes nothing: no request, no console line.
\<close>

theorem username_marked_before_call:
  assumes "hasApifyCredentials env"
    and "extractTwitterUsername pf source = Some u" and "u \<noteq> []"
    and "toLowerCase u \<notin> processedTwitterUsernames st"
  shows "scrape_source pf env bk st source
           = scrape_tweets pf env bk (marked (toLowerCase u) st) u
         \<and> (\<forall>e st'. fetchTweetsFromApify pf env bk u (marked (toLowerCase u) st) = (Inl e, st')
               \<longrightarrow> scrape_source pf env bk st source = Inr (emit (Error_FetchingTweets u e) st')
                   \<and> toLowerCase u \<in> processedTwitterUsernames st')
         \<and> (\<forall>st'. fetchTweetsFromApify pf env bk u (marked (toLowerCase u) st) = (Inr [], st')
               \<longrightarrow> scrape_source pf env bk st source = Inr (emit (Log_NoTweets u) st')
                   \<and> toLowerCase u \<in> processedTwitterUsernames st')
         \<and> (\<forall>st1 mid st2 source' u'.
               scrape_source pf env bk st source = Inr st1
               \<and> scrape_loop pf env bk st1 mid = Inr st2
               \<and> extractTwitterUsername pf source' = Some u' \<and> u' \<noteq> []
               \<and> toLowerCase u' = toLowerCase u
               \<longrightarrow> scrape_source pf env bk st2 source' = Inr st2)"
proof (intro conjI allI impI)
  show entry: "scrape_source pf env bk st source
                 = scrape_tweets pf env bk (marked (toLowerCase u) st) u"
    using step_first_time [OF assms] by (simp add: marked_def)
  {
    fix r st'
    assume f: "fetchTweetsFromApify pf env bk u (marked (toLowerCase u) st) = (r, st')"
    from fetchTweets_state [OF assms(1) f]
    have "processedTwitterUsernames st'
            = processedTwitterUsernames (marked (toLowerCase u) st)"
      by auto
    then have "toLowerCase u \<in> processedTwitterUsernames st'"
      by (simp add: marked_def)
  }
  note kept = this
  {
    fix e st'
    assume f: "fetchTweetsFromApify pf env bk u (marked (toLowerCase u) st) = (Inl e, st')"
    then show "scrape_source pf env bk st source = Inr (emit (Error_FetchingTweets u e) st')"
      by (simp add: entry scrape_tweets_def)
    from kept [OF f] show "toLowerCase u \<in> processedTwitterUsernames st'" .
  }
  {
    fix st'
    assume f: "fetchTweetsFromApify pf env bk u (marked (toLowerCase u) st) = (Inr [], st')"
    then show "scrape_source pf env bk st source = Inr (emit (Log_NoTweets u) st')"
      by (simp add: entry scrape_tweets_def)
    from kept [OF f] show "toLowerCase u \<in> processedTwitterUsernames st'" .
  }
  {
    fix st1 mid st2 source' u'
    assume h: "scrape_source pf env bk st source = Inr st1
               \<and> scrape_loop pf env bk st1 mid = Inr st2
               \<and> extractTwitterUsername pf source' = Some u' \<and> u' \<noteq> []
               \<and> toLowerCase u' = toLowerCase u"
    have n: "normalized_username pf source = Some (toLowerCase u)"
      using assms(2,3) by (simp add: normalized_username_def)
    have n': "normalized_username pf source' = Some (toLowerCase u)"
      using h by (simp add: normalized_username_def)
    from h have h1: "scrape_source pf env bk st source = Inr st1"
      and h2: "scrape_loop pf env bk st1 mid = Inr st2"
      by simp_all
    from scrape_source_step [OF h1] n assms(1)
    have in1: "toLowerCase u \<in> processedTwitterUsernames st1" and saw1: "sawTwitterSource st1"
      by (auto simp: is_social_iff)
    from scrape_loop_run [OF h2]
    have sub: "processedTwitterUsernames st1 \<subseteq> processedTwitterUsernames st2"
      and saw2: "sawTwitterSource st2
         = (sawTwitterSource st1 \<or> (\<exists>s \<in> set mid. is_social pf (source_identifier s)))"
      by blast+
    from in1 sub have "toLowerCase u \<in> processedTwitterUsernames st2"
      by blast
    from step_already_processed [OF assms(1) n' this, of bk] saw1 saw2
    show "scrape_source pf env bk st2 source' = Inr st2"
      by simp
  }
qed

text \<open>
  The run of a profile, a page and the profile again with every call rejecting, and the
  first step with a backend that finds nothing.
\<close>

theorem username_marked_before_call_witness:
  "hasApifyCredentials env_configured
   \<and> extractTwitterUsername sample_platform ''https://x.com/openai'' = Some ''openai''
   \<and> toLowerCase ''openai'' \<notin> processedTwitterUsernames (initial_state (0::nat))
   \<and> fetchTweetsFromApify sample_platform env_configured failing ''openai''
        (marked (toLowerCase ''openai'') (initial_state 0))
       = (Inl (Thrown None), after_request)
   \<and> scrape_source sample_platform env_configured failing (initial_state 0) ''https://x.com/openai''
       = Inr (emit (Error_FetchingTweets ''openai'' (Thrown None)) after_request)
   \<and> toLowerCase ''openai'' \<in> processedTwitterUsernames after_request
   \<and> fetchTweetsFromApify sample_platform env_configured silent ''openai''
        (marked (toLowerCase ''openai'') (initial_state 0))
       = (Inr [], after_request)
   \<and> scrape_source sample_platform env_configured silent (initial_state 0) ''https://x.com/openai''
       = Inr (emit (Log_NoTweets ''openai'') after_request)
   \<and> scrape_loop sample_platform env_configured failing
        (emit (Error_FetchingTweets ''openai'' (Thrown None)) after_request)
        [src ''https://example.com'']
       = Inr (emit (Error_RateLimit ''https://example.com'')
               (emit (FirecrawlExtract ''https://example.com'')
                 (emit (Error_FetchingTweets ''openai'' (Thrown None)) after_request
                    \<lparr>world := 2\<rparr>)))
   \<and> extractTwitterUsername sample_platform ''x.com/@OpenAI'' = Some ''OpenAI''
   \<and> toLowerCase ''OpenAI'' = toLowerCase ''openai''
   \<and> scrape_source sample_platform env_configured failing
        (emit (Error_RateLimit ''https://example.com'')
               (emit (FirecrawlExtract ''https://example.com'')
                 (emit (Error_FetchingTweets ''openai'' (Thrown None)) after_request
                    \<lparr>world := 2\<rparr>)))
        ''x.com/@OpenAI''
       = Inr (emit (Error_RateLimit ''https://example.com'')
               (emit (FirecrawlExtract ''https://example.com'')
                 (emit (Error_FetchingTweets ''openai'' (Thrown None)) after_request
                    \<lparr>world := 2\<rparr>)))"
proof -
  let ?st0 = "initial_state (0::nat)"
  let ?st1 = "emit (Error_FetchingTweets ''openai'' (Thrown None)) after_request"
  let ?st2 = "emit (Error_RateLimit ''https://example.com'')
               (emit (FirecrawlExtract ''https://example.com'') (?st1\<lparr>world := 2\<rparr>))"
  have a: "hasApifyCredentials env_configured"
    by code_simp
  have b: "extractTwitterUsername sample_platform ''https://x.com/openai'' = Some ''openai''"
    by code_simp
  have c: "''openai'' \<noteq> []"
    by simp
  have d: "toLowerCase ''openai'' \<notin> processedTwitterUsernames ?st0"
    by (simp add: initial_state_def)
  have f1: "fetchTweetsFromApify sample_platform env_configured failing ''openai''
              (marked (toLowerCase ''openai'') ?st0) = (Inl (Thrown None), after_request)"
    by code_simp
  have f2: "fetchTweetsFromApify sample_platform env_configured silent ''openai''
              (marked (toLowerCase ''openai'') ?st0) = (Inr [], after_request)"
    by code_simp
  have l: "scrape_loop sample_platform env_configured failing ?st1 [src ''https://example.com'']
             = Inr ?st2"
    by code_simp
  have b': "extractTwitterUsername sample_platform ''x.com/@OpenAI'' = Some ''OpenAI''"
    by code_simp
  have c': "''OpenAI'' \<noteq> []"
    by simp
  have e': "toLowerCase ''OpenAI'' = toLowerCase ''openai''"
    by code_simp
  note failing_run = username_marked_before_call [OF a b c d, of failing]
  note silent_run = username_marked_before_call [OF a b c d, of silent]
  from failing_run f1
  have s1: "scrape_source sample_platform env_configured failing ?st0 ''https://x.com/openai''
              = Inr ?st1"
    and m1: "toLowerCase ''openai'' \<in> processedTwitterUsernames after_request"
    by blast+
  from silent_run f2
  have s2: "scrape_source sample_platform env_configured silent ?st0 ''https://x.com/openai''
              = Inr (emit (Log_NoTweets ''openai'') after_request)"
    by blast
  from failing_run s1 l b' c' e'
  have skip: "scrape_source sample_platform env_configured failing ?st2 ''x.com/@OpenAI''
                = Inr ?st2"
    by blast
  from a b d f1 s1 m1 f2 s2 l b' e' skip show ?thesis
    by simp
qed


section \<open>The scenarios of the specification\<close>

text \<open>
  A configured run of \<open>https://x.com/openai\<close> whose backend returns the one post; a page
  whose extraction reports \<open>timeout\<close>; and (the example after C9 above) an unconfigured run
  of a profile and a page.
\<close>

lemma scenario_one_post:
  "returned (scrapeSources sample_platform env_configured scenario 0 [src ''https://x.com/openai''])
     = Inr [\<lparr>headline = ''hi'', link = ''https://x.com/openai/status/1'',
              date_posted = ''2024-01-01T00:00:00.000Z''\<rparr>]"
  by code_simp

lemma scenario_timeout:
  "returned (scrapeSources sample_platform env_configured scenario 0
      [src ''https://example.com/ai-news'']) = Inr []
   \<and> final_console (scrapeSources sample_platform env_configured scenario 0
        [src ''https://example.com/ai-news''])
       = [FirecrawlExtract ''https://example.com/ai-news'',
          Error_Scraping ''https://example.com/ai-news'' (FailedToScrape ''timeout''),
          Log_CombinedStories []]"
  by code_simp

end
